theory Spec2Isabelle
  imports Main
begin

section \<open>Values, errors and the host language\<close>

text \<open>
  The schema engine works on JSON documents. A value is one of the JSON values or
  \<open>undefined\<close>. Numbers are modelled as integers; an object is the list of its entries
  in the order \<open>Object.keys\<close> enumerates them, with pairwise different keys.
\<close>

datatype jsval =
    Undefined
  | Null
  | Bool bool
  | Num int
  | Str string
  | Arr "jsval list"
  | Obj "(string \<times> jsval) list"

datatype error =
    TypeError string
  | ValidationError string
  | PopulationError string

text \<open>\<open>value == null\<close>: true for \<open>null\<close> and \<open>undefined\<close> only.\<close>

definition nullish :: "jsval \<Rightarrow> bool" where
  "nullish v = (v = Undefined \<or> v = Null)"

text \<open>The coercion of a value to a boolean, as \<open>if (v)\<close> and \<open>!v\<close> perform it.\<close>

fun truthy :: "jsval \<Rightarrow> bool" where
  "truthy Undefined = False"
| "truthy Null = False"
| "truthy (Bool b) = b"
| "truthy (Num n) = (n \<noteq> 0)"
| "truthy (Str s) = (s \<noteq> [])"
| "truthy (Arr xs) = True"
| "truthy (Obj kvs) = True"

text \<open>\<open>isPlainObject\<close>: of the values modelled, exactly the objects.\<close>

fun isPlainObject :: "jsval \<Rightarrow> bool" where
  "isPlainObject (Obj kvs) = True"
| "isPlainObject v = False"

fun is_reference :: "jsval \<Rightarrow> bool" where
  "is_reference (Arr xs) = True"
| "is_reference (Obj kvs) = True"
| "is_reference v = False"

text \<open>
  The operators of the host language that \<open>schematype.ts\<close> applies to values of unknown
  type are parameters of the model: the four relational operators (which coerce their
  operands), the identity of two arrays or objects (what \<open>===\<close> tests on them; a tree of
  entries does not carry it), \<open>query.includes(value)\<close>, and the method \<open>match\<close> of a string
  (\<open>String.prototype.match\<close>, which a closure calls when what it found in \<open>paths\<close> is a
  string).
\<close>

record js =
  js_gt :: "jsval \<Rightarrow> jsval \<Rightarrow> bool"
  js_lt :: "jsval \<Rightarrow> jsval \<Rightarrow> bool"
  js_ge :: "jsval \<Rightarrow> jsval \<Rightarrow> bool"
  js_le :: "jsval \<Rightarrow> jsval \<Rightarrow> bool"
  js_same :: "jsval \<Rightarrow> jsval \<Rightarrow> bool"
  js_includes :: "jsval \<Rightarrow> jsval \<Rightarrow> error + bool"
  js_string_match :: "string \<Rightarrow> jsval \<Rightarrow> error + jsval"

text \<open>\<open>a === b\<close>: equality of primitives, identity of arrays and objects.\<close>

definition strict_eq :: "js \<Rightarrow> jsval \<Rightarrow> jsval \<Rightarrow> bool" where
  "strict_eq H a b = (if is_reference a \<and> is_reference b then js_same H a b else a = b)"

section \<open>The path accessor\<close>

text \<open>
  Modelled from the spec: the path accessor (\<open>getProp\<close>, \<open>setProp\<close> and \<open>delProp\<close> of
  \<open>./util\<close>) is imported by the schema but is not among the sources. The spec, 4.A: the
  path is split on \<open>.\<close>; traversal walks each intermediate key; on set, missing
  intermediates are created as empty mappings; on del, the leaf key is removed but empty
  parents are preserved; accessing a key on a non-mapping yields undefined (get) or
  raises (set).
\<close>

fun split_on :: "char \<Rightarrow> string \<Rightarrow> string list" where
  "split_on c [] = [[]]"
| "split_on c (x # xs) =
     (if x = c then [] # split_on c xs
      else (case split_on c xs of
              [] \<Rightarrow> [[x]]
            | t # ts \<Rightarrow> (x # t) # ts))"

definition obj_get :: "(string \<times> jsval) list \<Rightarrow> string \<Rightarrow> jsval" where
  "obj_get kvs k = (case map_of kvs k of None \<Rightarrow> Undefined | Some v \<Rightarrow> v)"

text \<open>\<open>obj[k] = v\<close>: an existing key keeps its place, a new key goes last.\<close>

fun obj_put :: "(string \<times> 'a) list \<Rightarrow> string \<Rightarrow> 'a \<Rightarrow> (string \<times> 'a) list" where
  "obj_put [] k v = [(k, v)]"
| "obj_put ((k', v') # kvs) k v =
     (if k' = k then (k, v) # kvs else (k', v') # obj_put kvs k v)"

fun read_member :: "jsval \<Rightarrow> string \<Rightarrow> jsval" where
  "read_member (Obj kvs) k = obj_get kvs k"
| "read_member v k = Undefined"

fun getProp_path :: "jsval \<Rightarrow> string list \<Rightarrow> jsval" where
  "getProp_path v [] = v"
| "getProp_path v (k # ks) = getProp_path (read_member v k) ks"

definition getProp :: "jsval \<Rightarrow> string \<Rightarrow> jsval" where
  "getProp data key = getProp_path data (split_on CHR ''.'' key)"

fun setProp_path :: "jsval \<Rightarrow> string list \<Rightarrow> jsval \<Rightarrow> error + jsval" where
  "setProp_path d [] v = Inr v"
| "setProp_path (Obj kvs) (k # ks) v =
     (case setProp_path (if obj_get kvs k = Undefined then Obj [] else obj_get kvs k) ks v of
        Inl e \<Rightarrow> Inl e
      | Inr c \<Rightarrow> Inr (Obj (obj_put kvs k c)))"
| "setProp_path d (k # ks) v = Inl (TypeError ''cannot set a property of a non-object'')"

definition setProp :: "jsval \<Rightarrow> string \<Rightarrow> jsval \<Rightarrow> error + jsval" where
  "setProp data key v = setProp_path data (split_on CHR ''.'' key) v"

fun delProp_path :: "jsval \<Rightarrow> string list \<Rightarrow> jsval" where
  "delProp_path (Obj kvs) [k] = Obj (filter (\<lambda>p. fst p \<noteq> k) kvs)"
| "delProp_path (Obj kvs) (k # ks) =
     (case map_of kvs k of
        None \<Rightarrow> Obj kvs
      | Some c \<Rightarrow> Obj (obj_put kvs k (delProp_path c ks)))"
| "delProp_path d ks = d"

definition delProp :: "jsval \<Rightarrow> string \<Rightarrow> jsval" where
  "delProp data key = delProp_path data (split_on CHR ''.'' key)"

text \<open>
  A key that is \<open>undefined\<close> (\<open>None\<close>) is no path: it cannot be split, and the accessor
  raises.
\<close>

definition getProp_key :: "jsval \<Rightarrow> string option \<Rightarrow> error + jsval" where
  "getProp_key data key =
     (case key of
        None \<Rightarrow> Inl (TypeError ''key is required!'')
      | Some k \<Rightarrow> Inr (getProp data k))"

definition setProp_key :: "jsval \<Rightarrow> string option \<Rightarrow> jsval \<Rightarrow> error + jsval" where
  "setProp_key data key v =
     (case key of
        None \<Rightarrow> Inl (TypeError ''key is required!'')
      | Some k \<Rightarrow> setProp data k v)"

section \<open>The base schema type (schematype.ts)\<close>

text \<open>
  \<open>options.default\<close> is a value or a function. A function may answer differently each
  time it is called: \<open>DFn f\<close> answers \<open>f n\<close> at its call number \<open>n\<close>, and the functions
  that may call it take the number of calls made so far and return the new number.
  An option that is not set is \<open>DVal Undefined\<close>.
\<close>

datatype dflt = DVal jsval | DFn "nat \<Rightarrow> jsval"

record options =
  opt_required :: bool
  opt_default :: dflt
  opt_ref :: "string option"

type_synonym qmethod = "jsval \<Rightarrow> jsval \<Rightarrow> jsval \<Rightarrow> error + jsval"

text \<open>An update operator returns the replacement value and the document, which it may
  have changed (\<open>u$rename\<close> does).\<close>

type_synonym umethod = "jsval \<Rightarrow> jsval \<Rightarrow> jsval \<Rightarrow> error + (jsval \<times> jsval)"

text \<open>
  A schema type: its name, its options, the child of an array type, and its methods.
  \<open>st_q\<close> and \<open>st_u\<close> are the property lookups \<open>path[qkey]\<close> and \<open>path[ukey]\<close> for the
  names \<open>q$...\<close> and \<open>u$...\<close>: \<open>None\<close> when the type has no such method.
\<close>

datatype stype = SchemaType
  (st_name: string)
  (st_options: options)
  (st_child: "stype option")
  (st_cast: "jsval \<Rightarrow> jsval \<Rightarrow> nat \<Rightarrow> jsval \<times> nat")
  (st_validate: "jsval \<Rightarrow> jsval \<Rightarrow> error + jsval")
  (st_compare: "jsval \<Rightarrow> jsval \<Rightarrow> int")
  (st_parse: "jsval \<Rightarrow> jsval")
  (st_value: "jsval \<Rightarrow> jsval \<Rightarrow> jsval")
  (st_match: "jsval \<Rightarrow> jsval \<Rightarrow> jsval \<Rightarrow> jsval")
  (st_q: "string \<Rightarrow> qmethod option")
  (st_u: "string \<Rightarrow> umethod option")

text \<open>\<open>this.default()\<close>, as the constructor set it up.\<close>

fun default_call :: "dflt \<Rightarrow> nat \<Rightarrow> jsval \<times> nat" where
  "default_call (DVal d) n = (d, n)"
| "default_call (DFn f) n = (f n, Suc n)"

definition cast :: "options \<Rightarrow> jsval \<Rightarrow> jsval \<Rightarrow> nat \<Rightarrow> jsval \<times> nat" where
  "cast opts v data n = (if nullish v then default_call (opt_default opts) n else (v, n))"

definition validate :: "string \<Rightarrow> options \<Rightarrow> jsval \<Rightarrow> jsval \<Rightarrow> error + jsval" where
  "validate nm opts v data =
     (if opt_required opts \<and> nullish v
      then Inl (ValidationError (''`'' @ nm @ ''` is required!''))
      else Inr v)"

definition compare :: "js \<Rightarrow> jsval \<Rightarrow> jsval \<Rightarrow> int" where
  "compare H a b = (if js_gt H a b then 1 else if js_lt H a b then - 1 else 0)"

definition parse :: "jsval \<Rightarrow> jsval" where
  "parse v = v"

definition value_of :: "jsval \<Rightarrow> jsval \<Rightarrow> jsval" where
  "value_of v data = v"

definition match :: "js \<Rightarrow> jsval \<Rightarrow> jsval \<Rightarrow> jsval \<Rightarrow> jsval" where
  "match H v query data = Bool (strict_eq H v query)"

definition q_exist :: "js \<Rightarrow> qmethod" where
  "q_exist H v query data = Inr (Bool (strict_eq H (Bool (\<not> nullish v)) query))"

definition q_ne :: "js \<Rightarrow> qmethod" where
  "q_ne H v query data = Inr (Bool (\<not> truthy (match H v query data)))"

definition q_lt :: "js \<Rightarrow> qmethod" where
  "q_lt H v query data = Inr (Bool (js_lt H v query))"

definition q_lte :: "js \<Rightarrow> qmethod" where
  "q_lte H v query data = Inr (Bool (js_le H v query))"

definition q_gt :: "js \<Rightarrow> qmethod" where
  "q_gt H v query data = Inr (Bool (js_gt H v query))"

definition q_gte :: "js \<Rightarrow> qmethod" where
  "q_gte H v query data = Inr (Bool (js_ge H v query))"

definition q_in :: "js \<Rightarrow> qmethod" where
  "q_in H v query data =
     (case js_includes H query v of Inl e \<Rightarrow> Inl e | Inr b \<Rightarrow> Inr (Bool b))"

definition q_nin :: "js \<Rightarrow> qmethod" where
  "q_nin H v query data =
     (case js_includes H query v of Inl e \<Rightarrow> Inl e | Inr b \<Rightarrow> Inr (Bool (\<not> b)))"

definition u_set :: umethod where
  "u_set v update data = Inr (update, data)"

definition u_unset :: umethod where
  "u_unset v update data = Inr (if truthy update then Undefined else v, data)"

text \<open>\<open>u$rename\<close> writes the value at the path its argument names and returns undefined.\<close>

definition u_rename :: umethod where
  "u_rename v update data =
     (if v \<noteq> Undefined
      then (case setProp_key data (case update of Str s \<Rightarrow> Some s | _ \<Rightarrow> None) v of
              Inl e \<Rightarrow> Inl e
            | Inr data' \<Rightarrow> Inr (Undefined, data'))
      else Inr (Undefined, data))"

text \<open>The query and update operators of the prototype, with the three aliases set after
  the class.\<close>

definition base_q :: "js \<Rightarrow> string \<Rightarrow> qmethod option" where
  "base_q H k =
     (if k = ''q$exist'' \<or> k = ''q$exists'' then Some (q_exist H)
      else if k = ''q$ne'' then Some (q_ne H)
      else if k = ''q$lt'' then Some (q_lt H)
      else if k = ''q$lte'' \<or> k = ''q$max'' then Some (q_lte H)
      else if k = ''q$gt'' then Some (q_gt H)
      else if k = ''q$gte'' \<or> k = ''q$min'' then Some (q_gte H)
      else if k = ''q$in'' then Some (q_in H)
      else if k = ''q$nin'' then Some (q_nin H)
      else None)"

definition base_u :: "string \<Rightarrow> umethod option" where
  "base_u k =
     (if k = ''u$set'' then Some u_set
      else if k = ''u$unset'' then Some u_unset
      else if k = ''u$rename'' then Some u_rename
      else None)"

text \<open>
  The constructor: the name defaults to the empty string, the options to
  \<open>{required: false}\<close>.
\<close>

definition no_options :: options where
  "no_options = \<lparr>opt_required = False, opt_default = DVal Undefined, opt_ref = None\<rparr>"

definition new_SchemaType :: "js \<Rightarrow> string option \<Rightarrow> options option \<Rightarrow> stype" where
  "new_SchemaType H nm os =
     (let name = (case nm of None \<Rightarrow> [] | Some n \<Rightarrow> n);
          opts = (case os of None \<Rightarrow> no_options | Some x \<Rightarrow> x)
      in SchemaType name opts None (cast opts) (validate name opts) (compare H) parse
           value_of (match H) (base_q H) base_u)"

section \<open>The object \<open>paths\<close>\<close>

text \<open>
  \<open>paths\<close> is a plain object (\<open>paths = {}\<close>): its own keys are the registered names
  (\<open>entries\<close>; their order plays no part), and its prototype is \<open>Object.prototype\<close>
  (\<open>None\<close>) until an assignment to the name \<open>__proto__\<close> makes a schema type its
  prototype. Reading \<open>paths[name]\<close> finds an own key first and then follows the
  prototype.

  What \<open>paths[name]\<close> yields when it is not undefined: a schema type, a string (the name
  of a schema type; falsy when empty), or another value that is not a schema type (a
  function, \<open>Object.prototype\<close>, an options object) and has none of the properties the
  closures read: neither the methods of a schema type nor \<open>child\<close> nor \<open>options\<close>.
\<close>

datatype pathval = PathType stype | PathString string | PathForeign

record pathsobj =
  entries :: "(string \<times> stype) list"
  proto :: "stype option"

text \<open>The names every object inherits from \<open>Object.prototype\<close>, apart from the
  accessor \<open>__proto__\<close>.\<close>

definition object_prototype_names :: "string list" where
  "object_prototype_names =
     [''constructor'', ''__defineGetter__'', ''__defineSetter__'', ''hasOwnProperty'',
      ''__lookupGetter__'', ''__lookupSetter__'', ''isPrototypeOf'', ''propertyIsEnumerable'',
      ''toString'', ''valueOf'', ''toLocaleString'']"

text \<open>The methods of the class \<open>SchemaType\<close> other than the query and update operators.\<close>

definition schematype_methods :: "string list" where
  "schematype_methods =
     [''constructor'', ''cast'', ''validate'', ''compare'', ''parse'', ''value'', ''match'']"

text \<open>
  Reading the property \<open>k\<close> off a schema type, as the type is modelled: its own
  properties \<open>name\<close>, \<open>options\<close>, \<open>default\<close> and, when it has one, \<open>child\<close>; the methods of
  its class; what it inherits from \<open>Object.prototype\<close>.
\<close>

definition instance_prop :: "stype \<Rightarrow> string \<Rightarrow> pathval option" where
  "instance_prop t k =
     (if k = ''name'' then Some (PathString (st_name t))
      else if k = ''child'' then (case st_child t of None \<Rightarrow> None | Some c \<Rightarrow> Some (PathType c))
      else if k = ''options'' \<or> k = ''default'' \<or> k \<in> set schematype_methods
              \<or> st_q t k \<noteq> None \<or> st_u t k \<noteq> None \<or> k \<in> set object_prototype_names
      then Some PathForeign
      else None)"

text \<open>\<open>paths[k]\<close>. The getter of \<open>__proto__\<close> returns the prototype of \<open>paths\<close>.\<close>

definition paths_get :: "pathsobj \<Rightarrow> string \<Rightarrow> pathval option" where
  "paths_get P k =
     (case map_of (entries P) k of
        Some t \<Rightarrow> Some (PathType t)
      | None \<Rightarrow>
          (case proto P of
             None \<Rightarrow>
               if k = ''__proto__'' \<or> k \<in> set object_prototype_names then Some PathForeign
               else None
           | Some t \<Rightarrow> if k = ''__proto__'' then Some (PathType t) else instance_prop t k))"

text \<open>
  \<open>paths[k] = t\<close>. The name \<open>__proto__\<close>, unless it is an own key, runs the inherited
  setter: the type becomes the prototype of \<open>paths\<close> and no key is added. Any other name
  becomes or stays an own key.
\<close>

definition paths_put :: "pathsobj \<Rightarrow> string \<Rightarrow> stype \<Rightarrow> pathsobj" where
  "paths_put P k t =
     (if k = ''__proto__'' \<and> map_of (entries P) k = None then P\<lparr>proto := Some t\<rparr>
      else P\<lparr>entries := obj_put (entries P) k t\<rparr>)"

text \<open>\<open>path_ || new SchemaType(key)\<close>: undefined and the empty string are falsy.\<close>

definition or_new :: "js \<Rightarrow> pathval option \<Rightarrow> string option \<Rightarrow> pathval" where
  "or_new H found key =
     (case found of
        None \<Rightarrow> PathType (new_SchemaType H key None)
      | Some p \<Rightarrow> if p = PathString [] then PathType (new_SchemaType H key None) else p)"

text \<open>\<open>path[k]\<close> for the name of a query or update operator: only a schema type can have
  such a method.\<close>

fun path_q :: "pathval \<Rightarrow> string \<Rightarrow> qmethod option" where
  "path_q (PathType t) k = st_q t k"
| "path_q p k = None"

fun path_u :: "pathval \<Rightarrow> string \<Rightarrow> umethod option" where
  "path_u (PathType t) k = st_u t k"
| "path_u p k = None"

section \<open>The schema: paths and stacks\<close>

text \<open>
  A declaration, as \<open>path(name, obj)\<close> tells the cases apart: null or undefined, an
  instance of \<open>SchemaType\<close>, a constructor function, an array, another object (with its
  entries), and a boolean, number or string.
\<close>

datatype ctor = Ctor string

datatype decl =
    DNull
  | DInstance stype
  | DFunction ctor
  | DArray "decl list"
  | DObject "(string \<times> decl) list"
  | DPrimitive jsval

text \<open>
  The built-in types (\<open>./types/index\<close>) and the constructors a declaration names are not
  among the sources; they are parameters: \<open>new Types[typeName](name, options)\<close>,
  \<open>new Type(name, options)\<close>, \<open>new Types.Array(name, {child})\<close> and
  \<open>new Types.Object()\<close>.
\<close>

record types =
  new_builtin :: "string \<Rightarrow> string \<Rightarrow> decl \<Rightarrow> error + stype"
  new_user :: "ctor \<Rightarrow> string \<Rightarrow> decl \<Rightarrow> error + stype"
  new_Array :: "string \<Rightarrow> stype \<Rightarrow> stype"
  new_Object :: stype

definition builtinTypes :: "string list" where
  "builtinTypes = [''String'', ''Number'', ''Boolean'', ''Array'', ''Object'', ''Date'', ''Buffer'']"

fun decl_truthy :: "decl \<Rightarrow> bool" where
  "decl_truthy DNull = False"
| "decl_truthy (DPrimitive v) = truthy v"
| "decl_truthy d = True"

text \<open>\<open>options.type\<close> and \<open>Type.name\<close>, read off a declaration.\<close>

fun decl_type :: "decl \<Rightarrow> decl" where
  "decl_type (DObject kvs) = (case map_of kvs ''type'' of None \<Rightarrow> DNull | Some t \<Rightarrow> t)"
| "decl_type d = DNull"

fun decl_name :: "decl \<Rightarrow> string option" where
  "decl_name (DFunction (Ctor n)) = Some n"
| "decl_name (DInstance t) = Some (st_name t)"
| "decl_name (DObject kvs) =
     (case map_of kvs ''name'' of Some (DPrimitive (Str n)) \<Rightarrow> Some n | _ \<Rightarrow> None)"
| "decl_name d = None"

fun getSchemaType :: "types \<Rightarrow> string \<Rightarrow> decl \<Rightarrow> error + stype" where
  "getSchemaType T name DNull = Inl (TypeError ''cannot read a property of null'')"
| "getSchemaType T name opts =
     (let Type = (if decl_truthy (decl_type opts) then decl_type opts else opts) in
      case decl_name Type of
        None \<Rightarrow>
          (case Type of
             DFunction c \<Rightarrow> new_user T c name opts
           | _ \<Rightarrow> Inl (TypeError ''Type is not a constructor''))
      | Some typeName \<Rightarrow>
          if typeName \<in> set builtinTypes then new_builtin T typeName name opts
          else (case Type of
                  DFunction c \<Rightarrow> new_user T c name opts
                | _ \<Rightarrow> Inl (TypeError ''Type is not a constructor'')))"

text \<open>
  The closures of the four stacks capture \<open>name\<close> and \<open>type\<close>; a stack is the list of
  these pairs and each kind of closure has its body below.
\<close>

type_synonym closure = "string \<times> stype"

record stacks =
  getter :: "closure list"
  setter :: "closure list"
  import_stack :: "closure list"
  export_stack :: "closure list"

record schema =
  paths :: pathsobj
  stacks :: stacks

definition new_Schema :: schema where
  "new_Schema = \<lparr>paths = \<lparr>entries = [], proto = None\<rparr>, stacks = \<lparr>getter = [], setter = [], import_stack = [], export_stack = []\<rparr>\<rparr>"

definition updateStack :: "string \<Rightarrow> stype \<Rightarrow> schema \<Rightarrow> schema" where
  "updateStack name t s =
     s\<lparr>stacks :=
         \<lparr>getter = getter (stacks s) @ [(name, t)],
          setter = setter (stacks s) @ [(name, t)],
          import_stack = import_stack (stacks s) @ [(name, t)],
          export_stack = export_stack (stacks s) @ [(name, t)]\<rparr>\<rparr>"

text \<open>\<open>this.paths[name] = type; this._updateStack(name, type)\<close>.\<close>

definition install :: "string \<Rightarrow> stype \<Rightarrow> schema \<Rightarrow> schema" where
  "install name t s = updateStack name t (s\<lparr>paths := paths_put (paths s) name t\<rparr>)"

text \<open>
  \<open>add\<close> and \<open>path\<close> return the exception thrown, if any, and the schema as the call left
  it: what was registered before a throw stays registered.
\<close>

fun add :: "types \<Rightarrow> js \<Rightarrow> (string \<times> decl) list \<Rightarrow> string \<Rightarrow> schema \<Rightarrow> error option \<times> schema"
  and path :: "types \<Rightarrow> js \<Rightarrow> string \<Rightarrow> decl \<Rightarrow> schema \<Rightarrow> error option \<times> schema"
where
  "add T H [] prefix s = (None, s)"
| "add T H ((key, v) # rest) prefix s =
     (case path T H (prefix @ key) v s of
        (Some e, s') \<Rightarrow> (Some e, s')
      | (None, s') \<Rightarrow> add T H rest prefix s')"
| "path T H name DNull s = (None, s)"
| "path T H name (DInstance t) s = (None, install name t s)"
| "path T H name (DFunction c) s =
     (case getSchemaType T name (DObject [(''type'', DFunction c)]) of
        Inl e \<Rightarrow> (Some e, s)
      | Inr t \<Rightarrow> (None, install name t s))"
| "path T H name (DArray ds) s =
     (case (case ds of
              [] \<Rightarrow> Inr (new_SchemaType H (Some name) None)
            | d # ds' \<Rightarrow> getSchemaType T name d) of
        Inl e \<Rightarrow> (Some e, s)
      | Inr child \<Rightarrow> (None, install name (new_Array T name child) s))"
| "path T H name (DObject kvs) s =
     (if decl_truthy (decl_type (DObject kvs))
      then (case getSchemaType T name (DObject kvs) of
              Inl e \<Rightarrow> (Some e, s)
            | Inr t \<Rightarrow> (None, install name t s))
      else if kvs \<noteq> [] then add T H kvs (name @ ''.'') (install name (new_Object T) s)
      else (None, install name (new_Object T) s))"
| "path T H name (DPrimitive v) s =
     (Some (TypeError (''Invalid value for schema path `'' @ name @ ''`'')), s)"

text \<open>A registration call, and a sequence of them on one schema. The caller may catch
  what a call throws and go on.\<close>

datatype call = CallAdd "(string \<times> decl) list" string | CallPath string decl

fun run_call :: "types \<Rightarrow> js \<Rightarrow> call \<Rightarrow> schema \<Rightarrow> schema" where
  "run_call T H (CallAdd kvs prefix) s = snd (add T H kvs prefix s)"
| "run_call T H (CallPath name d) s = snd (path T H name d s)"

fun run_calls :: "types \<Rightarrow> js \<Rightarrow> call list \<Rightarrow> schema \<Rightarrow> schema" where
  "run_calls T H [] s = s"
| "run_calls T H (c # cs) s = run_calls T H cs (run_call T H c s)"

subsection \<open>The closures of the stacks\<close>

definition getter_fn :: "closure \<Rightarrow> jsval \<Rightarrow> nat \<Rightarrow> error + (jsval \<times> nat)" where
  "getter_fn c data n =
     (case st_cast (snd c) (getProp data (fst c)) data n of
        (result, n') \<Rightarrow>
          if result \<noteq> Undefined
          then (case setProp data (fst c) result of
                  Inl e \<Rightarrow> Inl e
                | Inr data' \<Rightarrow> Inr (data', n'))
          else Inr (data, n'))"

definition setter_fn :: "closure \<Rightarrow> jsval \<Rightarrow> error + jsval" where
  "setter_fn c data =
     (case st_validate (snd c) (getProp data (fst c)) data of
        Inl e \<Rightarrow> Inl e
      | Inr result \<Rightarrow>
          if result \<noteq> Undefined then setProp data (fst c) result
          else Inr (delProp data (fst c)))"

definition import_fn :: "closure \<Rightarrow> jsval \<Rightarrow> error + jsval" where
  "import_fn c data =
     (let result = st_parse (snd c) (getProp data (fst c)) in
      if result \<noteq> Undefined then setProp data (fst c) result else Inr data)"

definition export_fn :: "closure \<Rightarrow> jsval \<Rightarrow> error + jsval" where
  "export_fn c data =
     (let result = st_value (snd c) (getProp data (fst c)) data in
      if result \<noteq> Undefined then setProp data (fst c) result
      else Inr (delProp data (fst c)))"

text \<open>Running a stack in insertion order; an exception ends the loop and is the result.\<close>

fun run_stack :: "('c \<Rightarrow> jsval \<Rightarrow> error + jsval) \<Rightarrow> 'c list \<Rightarrow> jsval \<Rightarrow> error + jsval" where
  "run_stack f [] data = Inr data"
| "run_stack f (c # cs) data =
     (case f c data of Inl e \<Rightarrow> Inl e | Inr data' \<Rightarrow> run_stack f cs data')"

fun applyGetters_loop :: "closure list \<Rightarrow> jsval \<Rightarrow> nat \<Rightarrow> error + (jsval \<times> nat)" where
  "applyGetters_loop [] data n = Inr (data, n)"
| "applyGetters_loop (c # cs) data n =
     (case getter_fn c data n of
        Inl e \<Rightarrow> Inl e
      | Inr (data', n') \<Rightarrow> applyGetters_loop cs data' n')"

definition applyGetters :: "schema \<Rightarrow> jsval \<Rightarrow> nat \<Rightarrow> error + (jsval \<times> nat)" where
  "applyGetters s data n = applyGetters_loop (getter (stacks s)) data n"

definition applySetters :: "schema \<Rightarrow> jsval \<Rightarrow> error + jsval" where
  "applySetters s data = run_stack setter_fn (setter (stacks s)) data"

definition parseDatabase :: "schema \<Rightarrow> jsval \<Rightarrow> error + jsval" where
  "parseDatabase s data = run_stack import_fn (import_stack (stacks s)) data"

definition exportDatabase :: "schema \<Rightarrow> jsval \<Rightarrow> error + jsval" where
  "exportDatabase s data = run_stack export_fn (export_stack (stacks s)) data"

section \<open>The update parser\<close>

text \<open>
  The closures the update parser pushes: \<open>updateStackNormal\<close> captures \<open>key\<close> and
  \<open>update\<close>; \<open>updateStackOperator\<close> captures the type, \<open>ukey\<close>, \<open>key\<close> and \<open>update\<close>. The
  key of an operator closure can be \<open>undefined\<close> (\<open>None\<close>).
\<close>

datatype ucallback =
    UpdateNormalFn string jsval
  | UpdateOperatorFn pathval string "string option" jsval

definition updateStackNormal :: "string \<Rightarrow> jsval \<Rightarrow> ucallback" where
  "updateStackNormal key update = UpdateNormalFn key update"

definition updateStackOperator ::
  "js \<Rightarrow> pathval option \<Rightarrow> string \<Rightarrow> string option \<Rightarrow> jsval \<Rightarrow> ucallback" where
  "updateStackOperator H path_opt ukey key update =
     UpdateOperatorFn (or_new H path_opt key) ukey key update"

text \<open>
  Calling a closure on a document. In \<open>path[ukey](getProp(data, key), update, data)\<close> the
  argument is evaluated before the call is attempted, and calling what is not a function
  raises a TypeError.
\<close>

fun run_update :: "ucallback \<Rightarrow> jsval \<Rightarrow> error + jsval" where
  "run_update (UpdateNormalFn key update) data = setProp data key update"
| "run_update (UpdateOperatorFn ty ukey key update) data =
     (case getProp_key data key of
        Inl e \<Rightarrow> Inl e
      | Inr v \<Rightarrow>
          (case path_u ty ukey of
             None \<Rightarrow> Inl (TypeError (''path['' @ ukey @ ''] is not a function''))
           | Some f \<Rightarrow>
               (case f v update data of
                  Inl e \<Rightarrow> Inl e
                | Inr (result, data') \<Rightarrow> setProp_key data' key result)))"

text \<open>The key of an array index, as \<open>Object.keys\<close> lists it: its decimal digits.\<close>

definition digit_char :: "nat \<Rightarrow> char" where
  "digit_char d = char_of (of_char CHR ''0'' + d)"

fun index_key :: "nat \<Rightarrow> string" where
  "index_key n =
     (if 10 \<le> n then index_key (n div 10) @ [digit_char (n mod 10)] else [digit_char n])"

text \<open>The own enumerable properties of a value: the entries of an object, the elements
  of an array and the characters of a string under their indices.\<close>

fun own_entries :: "jsval \<Rightarrow> (string \<times> jsval) list" where
  "own_entries (Obj kvs) = kvs"
| "own_entries (Arr xs) = zip (map index_key [0..<length xs]) xs"
| "own_entries (Str s) = zip (map index_key [0..<length s]) (map (\<lambda>c. Str [c]) s)"
| "own_entries v = []"

definition object_keys :: "jsval \<Rightarrow> error + string list" where
  "object_keys v =
     (if nullish v then Inl (TypeError ''Cannot convert undefined or null to object'')
      else Inr (map fst (own_entries v)))"

text \<open>\<open>fields[i]\<close>: undefined past the end. A key that is undefined reads the property
  named \<open>undefined\<close>.\<close>

definition nth_opt :: "'a list \<Rightarrow> nat \<Rightarrow> 'a option" where
  "nth_opt xs i = (if i < length xs then Some (xs ! i) else None)"

definition prop_key :: "string option \<Rightarrow> string" where
  "prop_key k = (case k of None \<Rightarrow> ''undefined'' | Some s \<Rightarrow> s)"

definition is_operator :: "string \<Rightarrow> bool" where
  "is_operator key = (case key of [] \<Rightarrow> False | c # cs \<Rightarrow> c = CHR ''$'')"

text \<open>
  The inline form, \<open>$op: {field: value, ...}\<close>, met at index \<open>i\<close> of the keys of the
  update, where \<open>fieldKeys\<close> is the source's \<open>fields\<close>: one closure is pushed for each
  \<open>j\<close> below the number of fields, and each reads \<open>fields[i]\<close>.
\<close>

definition inline_operators ::
  "js \<Rightarrow> pathsobj \<Rightarrow> string \<Rightarrow> nat \<Rightarrow> jsval \<Rightarrow> error + ucallback list" where
  "inline_operators H P ukey i update =
     (case object_keys update of
        Inl e \<Rightarrow> Inl e
      | Inr fieldKeys \<Rightarrow>
          Inr (map (\<lambda>j. let field = nth_opt fieldKeys i in
                         updateStackOperator H (paths_get P (prop_key field)) ukey field
                           (obj_get (own_entries update) (prop_key field)))
                 [0..<length fieldKeys]))"

text \<open>
  \<open>parseUpdate_loop\<close> is the loop of \<open>parseUpdate\<close> from index \<open>i\<close> of the keys on; it
  returns the closures pushed, in the order of the pushes. \<open>Object.keys\<close> of null raises
  while the update is parsed.
\<close>

fun parseUpdate_loop ::
  "js \<Rightarrow> pathsobj \<Rightarrow> string \<Rightarrow> nat \<Rightarrow> (string \<times> jsval) list
     \<Rightarrow> error + ucallback list" where
  "parseUpdate_loop H P prefix i [] = Inr []"
| "parseUpdate_loop H P prefix i ((key, update) # rest) =
     (case (if is_operator key
            then (if prefix \<noteq> []
                  then Inr [updateStackOperator H (paths_get P (butlast prefix)) (CHR ''u'' # key)
                              (Some (butlast prefix)) update]
                  else inline_operators H P (CHR ''u'' # key) i update)
            else (case update of
                    Obj kvs \<Rightarrow> parseUpdate_loop H P (prefix @ key @ ''.'') 0 kvs
                  | _ \<Rightarrow> Inr [updateStackNormal (prefix @ key) update])) of
        Inl e \<Rightarrow> Inl e
      | Inr pushed \<Rightarrow>
          (case parseUpdate_loop H P prefix (Suc i) rest of
             Inl e \<Rightarrow> Inl e
           | Inr later \<Rightarrow> Inr (pushed @ later)))"

definition parseUpdate ::
  "js \<Rightarrow> pathsobj \<Rightarrow> (string \<times> jsval) list \<Rightarrow> string \<Rightarrow> ucallback list
     \<Rightarrow> error + ucallback list" where
  "parseUpdate H P updates prefix stack =
     (case parseUpdate_loop H P prefix 0 updates of
        Inl e \<Rightarrow> Inl e
      | Inr pushed \<Rightarrow> Inr (stack @ pushed))"

definition schema_parseUpdate :: "js \<Rightarrow> schema \<Rightarrow> (string \<times> jsval) list \<Rightarrow> error + ucallback list" where
  "schema_parseUpdate H s updates = parseUpdate H (paths s) updates [] []"

text \<open>Applying a parsed update: its closures are called in order on the document.\<close>

definition apply_update :: "ucallback list \<Rightarrow> jsval \<Rightarrow> error + jsval" where
  "apply_update stack data = run_stack run_update stack data"

section \<open>The query parser\<close>

text \<open>
  A query document is the list of its clauses in key order. The constructor of a clause
  stands for its key, and carries the operand with the type the parser's methods declare
  for it: \<open>$and\<close>, \<open>$or\<close> and \<open>$nor\<close> an array of query documents, \<open>$not\<close> a query
  document, \<open>$where\<close> a function (called with the document as \<open>this\<close>), and any other
  key a value.
\<close>

datatype clause =
    QAnd "clause list list"
  | QOr "clause list list"
  | QNor "clause list list"
  | QNot "clause list"
  | QWhere "jsval \<Rightarrow> error + jsval"
  | QField string jsval

text \<open>
  The closures of the query parser: those of \<open>queryStackNormal\<close> and
  \<open>queryStackOperator\<close> capture the type found at compile time; those of \<open>$or\<close>, \<open>$nor\<close>,
  \<open>$not\<close> and \<open>execQuery\<close> capture a stack.
\<close>

datatype qfilter =
    MatchFn pathval string jsval
  | OperatorFn pathval string string jsval
  | OrFn "qfilter list"
  | NorFn "qfilter list"
  | NotFn "qfilter list"
  | WhereFn "jsval \<Rightarrow> error + jsval"
  | ExecFn "qfilter list"

definition queryStackNormal :: "js \<Rightarrow> pathsobj \<Rightarrow> string \<Rightarrow> jsval \<Rightarrow> qfilter" where
  "queryStackNormal H P name query =
     MatchFn (or_new H (paths_get P name) (Some name)) name query"

definition queryStackOperator ::
  "js \<Rightarrow> pathsobj \<Rightarrow> string \<Rightarrow> string \<Rightarrow> jsval \<Rightarrow> qfilter" where
  "queryStackOperator H P qkey name query =
     OperatorFn (or_new H (paths_get P name) (Some name)) qkey name query"

text \<open>\<open>parseNormalQuery\<close> returns the closures it pushes, in the order of the pushes.\<close>

fun parseNormalQuery ::
  "js \<Rightarrow> pathsobj \<Rightarrow> (string \<times> jsval) list \<Rightarrow> string \<Rightarrow> qfilter list" where
  "parseNormalQuery H P [] prefix = []"
| "parseNormalQuery H P ((key, query) # rest) prefix =
     (if is_operator key then [queryStackOperator H P (CHR ''q'' # key) prefix query]
      else (case query of
              Obj kvs \<Rightarrow> parseNormalQuery H P kvs (prefix @ ''.'' @ key)
            | _ \<Rightarrow> [queryStackNormal H P (prefix @ ''.'' @ key) query]))
     @ parseNormalQuery H P rest prefix"

fun parseQuery :: "js \<Rightarrow> pathsobj \<Rightarrow> clause list \<Rightarrow> qfilter list"
  and parseQueryArray :: "js \<Rightarrow> pathsobj \<Rightarrow> clause list list \<Rightarrow> qfilter list"
  and execQuery :: "js \<Rightarrow> pathsobj \<Rightarrow> clause list \<Rightarrow> qfilter"
where
  "parseQuery H P [] = []"
| "parseQuery H P (QAnd arr # rest) = parseQueryArray H P arr @ parseQuery H P rest"
| "parseQuery H P (QOr arr # rest) = OrFn (parseQueryArray H P arr) # parseQuery H P rest"
| "parseQuery H P (QNor arr # rest) = NorFn (parseQueryArray H P arr) # parseQuery H P rest"
| "parseQuery H P (QNot q # rest) = NotFn (parseQuery H P q) # parseQuery H P rest"
| "parseQuery H P (QWhere fn # rest) = WhereFn fn # parseQuery H P rest"
| "parseQuery H P (QField key query # rest) =
     (case query of
        Obj kvs \<Rightarrow> parseNormalQuery H P kvs key
      | _ \<Rightarrow> [queryStackNormal H P key query])
     @ parseQuery H P rest"
| "parseQueryArray H P [] = []"
| "parseQueryArray H P (q # arr) = execQuery H P q # parseQueryArray H P arr"
| "execQuery H P q = ExecFn (parseQuery H P q)"

definition schema_execQuery :: "js \<Rightarrow> schema \<Rightarrow> clause list \<Rightarrow> qfilter" where
  "schema_execQuery H s query = execQuery H (paths s) query"

text \<open>
  Calling a closure on a document. The loops of \<open>$or\<close>, \<open>$nor\<close>, \<open>$not\<close> and \<open>execQuery\<close>
  go through their stack in order and return at the first closure that decides. Calling
  a method that what was found in \<open>paths\<close> does not have raises a TypeError.
\<close>

fun run_filter :: "js \<Rightarrow> qfilter \<Rightarrow> jsval \<Rightarrow> error + jsval"
  and or_loop :: "js \<Rightarrow> qfilter list \<Rightarrow> jsval \<Rightarrow> error + jsval"
  and nor_loop :: "js \<Rightarrow> qfilter list \<Rightarrow> jsval \<Rightarrow> error + jsval"
  and not_loop :: "js \<Rightarrow> qfilter list \<Rightarrow> jsval \<Rightarrow> error + jsval"
  and exec_loop :: "js \<Rightarrow> qfilter list \<Rightarrow> jsval \<Rightarrow> error + jsval"
where
  "run_filter H (MatchFn ty name query) data =
     (case ty of
        PathType t \<Rightarrow> Inr (st_match t (getProp data name) query data)
      | PathString s \<Rightarrow> js_string_match H s (getProp data name)
      | PathForeign \<Rightarrow> Inl (TypeError ''path.match is not a function''))"
| "run_filter H (OperatorFn ty qkey name query) data =
     (case path_q ty qkey of
        None \<Rightarrow> Inl (TypeError (''path['' @ qkey @ ''] is not a function''))
      | Some f \<Rightarrow> f (getProp data name) query data)"
| "run_filter H (OrFn stack) data = or_loop H stack data"
| "run_filter H (NorFn stack) data = nor_loop H stack data"
| "run_filter H (NotFn stack) data = not_loop H stack data"
| "run_filter H (WhereFn fn) data = fn data"
| "run_filter H (ExecFn stack) data = exec_loop H stack data"
| "or_loop H [] data = Inr (Bool False)"
| "or_loop H (f # stack) data =
     (case run_filter H f data of
        Inl e \<Rightarrow> Inl e
      | Inr r \<Rightarrow> if truthy r then Inr (Bool True) else or_loop H stack data)"
| "nor_loop H [] data = Inr (Bool True)"
| "nor_loop H (f # stack) data =
     (case run_filter H f data of
        Inl e \<Rightarrow> Inl e
      | Inr r \<Rightarrow> if truthy r then Inr (Bool False) else nor_loop H stack data)"
| "not_loop H [] data = Inr (Bool False)"
| "not_loop H (f # stack) data =
     (case run_filter H f data of
        Inl e \<Rightarrow> Inl e
      | Inr r \<Rightarrow> if \<not> truthy r then Inr (Bool True) else not_loop H stack data)"
| "exec_loop H [] data = Inr (Bool True)"
| "exec_loop H (f # stack) data =
     (case run_filter H f data of
        Inl e \<Rightarrow> Inl e
      | Inr r \<Rightarrow> if \<not> truthy r then Inr (Bool False) else exec_loop H stack data)"

section \<open>The sort parser\<close>









section \<open>The population parser\<close>

text \<open>A populate option: its path and model, either of which may be missing, and its
  other options.\<close>

record popitem =
  item_path :: "string option"
  item_model :: "string option"
  item_rest :: "(string \<times> jsval) list"

datatype popelem = ElemStr string | ElemItem popitem

datatype popexpr = ExprStr string | ExprArr "popelem list" | ExprItem popitem

definition path_only :: "string \<Rightarrow> popitem" where
  "path_only p = \<lparr>item_path = Some p, item_model = None, item_rest = []\<rparr>"

text \<open>\<open>!s\<close> for a string that may be missing: true when it is missing or empty.\<close>

definition falsy :: "string option \<Rightarrow> bool" where
  "falsy s = (s = None \<or> s = Some [])"

fun normalize_expr :: "popexpr \<Rightarrow> popitem list" where
  "normalize_expr (ExprStr expr) = map path_only (split_on CHR '' '' expr)"
| "normalize_expr (ExprArr expr) =
     map (\<lambda>item. case item of ElemStr p \<Rightarrow> path_only p | ElemItem i \<Rightarrow> i) expr"
| "normalize_expr (ExprItem expr) = [expr]"

text \<open>\<open>path.child ? path.child.options.ref : path.options.ref\<close>.\<close>

definition type_ref :: "stype \<Rightarrow> string option" where
  "type_ref ty =
     (case st_child ty of
        Some c \<Rightarrow> opt_ref (st_options c)
      | None \<Rightarrow> opt_ref (st_options ty))"

text \<open>
  The second loop of \<open>_parsePopulate\<close>. When \<open>paths[key]\<close> is undefined, reading \<open>child\<close>
  of it raises a TypeError; when it is a value other than a schema type, \<open>child\<close> and
  \<open>options\<close> of it are undefined and reading \<open>ref\<close> raises a TypeError.
\<close>

fun parsePopulate_loop :: "pathsobj \<Rightarrow> popitem list \<Rightarrow> error + popitem list" where
  "parsePopulate_loop P [] = Inr []"
| "parsePopulate_loop P (item # arr) =
     (case item_path item of
        None \<Rightarrow> Inl (PopulationError ''path is required'')
      | Some key \<Rightarrow>
          if key = [] then Inl (PopulationError ''path is required'')
          else if \<not> falsy (item_model item)
          then (case parsePopulate_loop P arr of
                  Inl e \<Rightarrow> Inl e
                | Inr arr' \<Rightarrow> Inr (item # arr'))
          else (case paths_get P key of
                  None \<Rightarrow> Inl (TypeError ''Cannot read properties of undefined (reading child)'')
                | Some (PathType ty) \<Rightarrow>
                    let ref = type_ref ty
                    in if falsy ref then Inl (PopulationError ''model is required'')
                       else (case parsePopulate_loop P arr of
                               Inl e \<Rightarrow> Inl e
                             | Inr arr' \<Rightarrow> Inr (item\<lparr>item_model := ref\<rparr> # arr'))
                | Some _ \<Rightarrow> Inl (TypeError ''Cannot read properties of undefined (reading ref)'')))"

definition parsePopulate :: "schema \<Rightarrow> popexpr \<Rightarrow> error + popitem list" where
  "parsePopulate s expr = parsePopulate_loop (paths s) (normalize_expr expr)"

section \<open>Types and operators for the examples\<close>

text \<open>
  An interpretation of the host operators on numbers and strings: numbers compare as
  integers, strings by their characters, and no other pair is related; two arrays or
  objects are never the same one; \<open>includes\<close> is defined on arrays; a string matches
  nothing. The examples are evaluated with it.
\<close>

definition plain_rel :: "(int \<Rightarrow> int \<Rightarrow> bool) \<Rightarrow> (string \<Rightarrow> string \<Rightarrow> bool) \<Rightarrow> jsval \<Rightarrow> jsval \<Rightarrow> bool" where
  "plain_rel f g a b =
     (case a of
        Num x \<Rightarrow> (case b of Num y \<Rightarrow> f x y | _ \<Rightarrow> False)
      | Str x \<Rightarrow> (case b of Str y \<Rightarrow> g x y | _ \<Rightarrow> False)
      | _ \<Rightarrow> False)"

fun str_lt :: "string \<Rightarrow> string \<Rightarrow> bool" where
  "str_lt [] [] = False"
| "str_lt [] (y # ys) = True"
| "str_lt (x # xs) [] = False"
| "str_lt (x # xs) (y # ys) =
     (of_char x < (of_char y :: nat) \<or> (x = y \<and> str_lt xs ys))"

definition plain_js :: js where
  "plain_js =
     \<lparr>js_gt = plain_rel (\<lambda>x y. y < x) (\<lambda>x y. str_lt y x),
      js_lt = plain_rel (\<lambda>x y. x < y) str_lt,
      js_ge = plain_rel (\<lambda>x y. y \<le> x) (\<lambda>x y. \<not> str_lt x y),
      js_le = plain_rel (\<lambda>x y. x \<le> y) (\<lambda>x y. \<not> str_lt y x),
      js_same = (\<lambda>a b. False),
      js_includes = (\<lambda>q v. case q of
                              Arr xs \<Rightarrow> Inr (v \<in> set xs)
                            | _ \<Rightarrow> Inl (TypeError ''query.includes is not a function'')),
      js_string_match = (\<lambda>s v. Inr Null)\<rparr>"

text \<open>
  Modelled from the spec: the Number type (\<open>./types/number\<close>) is not among the sources.
  The spec's scenario takes "a Number type implementing \<open>u$inc\<close> adding the delta": the
  base type with that one update operator more.
\<close>

definition u_inc :: umethod where
  "u_inc v update data =
     Inr (case v of
            Num x \<Rightarrow> (case update of Num y \<Rightarrow> Num (x + y) | _ \<Rightarrow> Undefined)
          | _ \<Rightarrow> Undefined, data)"

definition new_Number :: "js \<Rightarrow> string \<Rightarrow> options \<Rightarrow> stype" where
  "new_Number H name opts =
     SchemaType name opts None (cast opts) (validate name opts) (compare H) parse value_of
       (match H) (base_q H) (\<lambda>k. if k = ''u$inc'' then Some u_inc else base_u k)"

text \<open>
  Constructors for the examples: \<open>Number\<close> as above; every other built-in or user type
  the base type, with the \<open>required\<close> and \<open>ref\<close> entries of the declaration as its
  options; an array type that holds its child; the base type for \<open>Types.Object\<close>.
\<close>

definition decl_options :: "decl \<Rightarrow> options" where
  "decl_options d =
     (case d of
        DObject kvs \<Rightarrow>
          \<lparr>opt_required = (case map_of kvs ''required'' of Some (DPrimitive (Bool b)) \<Rightarrow> b | _ \<Rightarrow> False),
           opt_default = DVal Undefined,
           opt_ref = (case map_of kvs ''ref'' of Some (DPrimitive (Str r)) \<Rightarrow> Some r | _ \<Rightarrow> None)\<rparr>
      | _ \<Rightarrow> no_options)"

definition plain_types :: "js \<Rightarrow> types" where
  "plain_types H =
     \<lparr>new_builtin = (\<lambda>typeName name d.
          if typeName = ''Number'' then Inr (new_Number H name (decl_options d))
          else Inr (new_SchemaType H (Some name) (Some (decl_options d)))),
      new_user = (\<lambda>c name d. Inr (new_SchemaType H (Some name) (Some (decl_options d)))),
      new_Array = (\<lambda>name child.
          SchemaType name no_options (Some child) (cast no_options) (validate name no_options)
            (compare H) parse value_of (match H) (base_q H) base_u),
      new_Object = new_SchemaType H None None\<rparr>"

text \<open>The schema \<open>{age: Number, name: {type: String, required: true}}\<close>.\<close>

definition person_schema :: schema where
  "person_schema =
     snd (add (plain_types plain_js) plain_js
            [(''age'', DFunction (Ctor ''Number'')),
             (''name'', DObject [(''type'', DFunction (Ctor ''String'')),
                                 (''required'', DPrimitive (Bool True))])]
            [] new_Schema)"

text \<open>The schema \<open>{age: Number, visits: Number}\<close>.\<close>

definition visit_schema :: schema where
  "visit_schema =
     snd (add (plain_types plain_js) plain_js
            [(''age'', DFunction (Ctor ''Number'')), (''visits'', DFunction (Ctor ''Number''))]
            [] new_Schema)"

text \<open>The schema \<open>{author: {type: String, ref: 'User'}, comments: [{type: String, ref:
  'Comment'}], tags: [String]}\<close>.\<close>

definition blog_schema :: schema where
  "blog_schema =
     snd (add (plain_types plain_js) plain_js
            [(''author'', DObject [(''type'', DFunction (Ctor ''String'')),
                                   (''ref'', DPrimitive (Str ''User''))]),
             (''comments'', DArray [DObject [(''type'', DFunction (Ctor ''String'')),
                                             (''ref'', DPrimitive (Str ''Comment''))]]),
             (''tags'', DArray [DFunction (Ctor ''String'')])]
            [] new_Schema)"

section \<open>The registrations of a call\<close>

text \<open>
  The registrations that \<open>add\<close> and \<open>path\<close> make for a declaration: the pairs of a name
  and a type for which \<open>paths[name] = type\<close> and \<open>_updateStack(name, type)\<close> run, in order,
  and the exception that ends them, if any. They depend on the declaration only.
\<close>

fun add_registrations ::
    "types \<Rightarrow> js \<Rightarrow> (string \<times> decl) list \<Rightarrow> string \<Rightarrow> error option \<times> closure list"
  and path_registrations ::
    "types \<Rightarrow> js \<Rightarrow> string \<Rightarrow> decl \<Rightarrow> error option \<times> closure list"
where
  "add_registrations T H [] prefix = (None, [])"
| "add_registrations T H ((key, v) # rest) prefix =
     (case path_registrations T H (prefix @ key) v of
        (Some e, rs) \<Rightarrow> (Some e, rs)
      | (None, rs) \<Rightarrow>
          (case add_registrations T H rest prefix of (e, rs') \<Rightarrow> (e, rs @ rs')))"
| "path_registrations T H name DNull = (None, [])"
| "path_registrations T H name (DInstance t) = (None, [(name, t)])"
| "path_registrations T H name (DFunction c) =
     (case getSchemaType T name (DObject [(''type'', DFunction c)]) of
        Inl e \<Rightarrow> (Some e, [])
      | Inr t \<Rightarrow> (None, [(name, t)]))"
| "path_registrations T H name (DArray ds) =
     (case (case ds of
              [] \<Rightarrow> Inr (new_SchemaType H (Some name) None)
            | d # ds' \<Rightarrow> getSchemaType T name d) of
        Inl e \<Rightarrow> (Some e, [])
      | Inr child \<Rightarrow> (None, [(name, new_Array T name child)]))"
| "path_registrations T H name (DObject kvs) =
     (if decl_truthy (decl_type (DObject kvs))
      then (case getSchemaType T name (DObject kvs) of
              Inl e \<Rightarrow> (Some e, [])
            | Inr t \<Rightarrow> (None, [(name, t)]))
      else if kvs \<noteq> []
      then (case add_registrations T H kvs (name @ ''.'') of
              (e, rs) \<Rightarrow> (e, (name, new_Object T) # rs))
      else (None, [(name, new_Object T)]))"
| "path_registrations T H name (DPrimitive v) =
     (Some (TypeError (''Invalid value for schema path `'' @ name @ ''`'')), [])"

fun call_registrations :: "types \<Rightarrow> js \<Rightarrow> call \<Rightarrow> closure list" where
  "call_registrations T H (CallAdd kvs prefix) = snd (add_registrations T H kvs prefix)"
| "call_registrations T H (CallPath name d) = snd (path_registrations T H name d)"

definition registrations :: "types \<Rightarrow> js \<Rightarrow> call list \<Rightarrow> closure list" where
  "registrations T H cs = concat (map (call_registrations T H) cs)"

definition install_all :: "closure list \<Rightarrow> schema \<Rightarrow> schema" where
  "install_all rs s = foldl (\<lambda>s' r. install (fst r) (snd r) s') s rs"

text \<open>
  What every registration keeps: no name is twice among the keys of \<open>paths\<close>, and
  \<open>__proto__\<close> is not among them.
\<close>

definition keys_inv :: "schema \<Rightarrow> bool" where
  "keys_inv s =
     (distinct (map fst (entries (paths s)))
      \<and> ''__proto__'' \<notin> set (map fst (entries (paths s))))"

section \<open>Notions of the specification\<close>







text \<open>
  The path name a closure of the query parser reads, and the property that it begins
  with a given prefix.
\<close>

fun filter_name :: "qfilter \<Rightarrow> string option" where
  "filter_name (MatchFn ty name query) = Some name"
| "filter_name (OperatorFn ty qkey name query) = Some name"
| "filter_name f = None"

definition begins_with :: "string \<Rightarrow> qfilter \<Rightarrow> bool" where
  "begins_with K f =
     (case filter_name f of None \<Rightarrow> False | Some name \<Rightarrow> take (length K) name = K)"

definition leading_dot :: "string \<Rightarrow> bool" where
  "leading_dot name = (case name of [] \<Rightarrow> False | c # cs \<Rightarrow> c = CHR ''.'')"

text \<open>
  A populate item that the loop of \<open>_parsePopulate\<close> passes: it has a path, and it has a
  model of its own or \<open>paths\<close> has a schema type with a \<open>ref\<close> for its path. The
  descriptor of such an item keeps the item's model, or takes the \<open>ref\<close>.
\<close>

definition registered_ref :: "pathsobj \<Rightarrow> string option \<Rightarrow> string option" where
  "registered_ref P key =
     (case key of
        None \<Rightarrow> None
      | Some k \<Rightarrow> (case paths_get P k of Some (PathType ty) \<Rightarrow> type_ref ty | _ \<Rightarrow> None))"

definition resolvable :: "pathsobj \<Rightarrow> popitem \<Rightarrow> bool" where
  "resolvable P item =
     (\<not> falsy (item_path item)
      \<and> (if falsy (item_model item) then \<not> falsy (registered_ref P (item_path item)) else True))"

definition resolve :: "pathsobj \<Rightarrow> popitem \<Rightarrow> popitem" where
  "resolve P item =
     (if falsy (item_model item) then item\<lparr>item_model := registered_ref P (item_path item)\<rparr>
      else item)"



section \<open>Properties\<close>

subsection \<open>Casting\<close>

text \<open>
  C6. For a base schema type and any value: a value that is neither null nor undefined is
  returned unchanged and the default is not called; for null and undefined the configured
  default is returned, a function default being called once more at every such cast (the
  call count advances), and undefined is returned when no default was set.
\<close>

theorem cast_default_substitution:
  "st_cast (new_SchemaType H nm (Some opts)) v data n =
     (if v = Null \<or> v = Undefined
      then (case opt_default opts of
              DVal d \<Rightarrow> (d, n)
            | DFn f \<Rightarrow> (f n, Suc n))
      else (v, n))
   \<and> st_cast (new_SchemaType H nm None) v data n =
       (if v = Null \<or> v = Undefined then (Undefined, n) else (v, n))"
  by (auto simp: new_SchemaType_def cast_def nullish_def no_options_def Let_def
      split: dflt.splits)

subsection \<open>The stacks and the keys of \<open>paths\<close>\<close>

lemma obj_put_keys: "fst ` set (obj_put kvs k v) = insert k (fst ` set kvs)"
proof (induction kvs)
  case Nil
  show ?case by simp
next
  case (Cons p kvs)
  obtain k' v' where p: "p = (k', v')" by (cases p)
  show ?case
  proof (cases "k' = k")
    case True
    then show ?thesis by (simp add: p)
  next
    case False
    then show ?thesis using Cons.IH by (simp add: p insert_commute)
  qed
qed

lemma obj_put_distinct: "distinct (map fst kvs) \<Longrightarrow> distinct (map fst (obj_put kvs k v))"
proof (induction kvs)
  case Nil
  show ?case by simp
next
  case (Cons p kvs)
  obtain k' v' where p: "p = (k', v')" by (cases p)
  show ?case using Cons by (auto simp: p obj_put_keys)
qed

lemma install_stacks:
  "getter (stacks (install name t s)) = getter (stacks s) @ [(name, t)]"
  "setter (stacks (install name t s)) = setter (stacks s) @ [(name, t)]"
  "import_stack (stacks (install name t s)) = import_stack (stacks s) @ [(name, t)]"
  "export_stack (stacks (install name t s)) = export_stack (stacks s) @ [(name, t)]"
  by (simp_all add: install_def updateStack_def)

lemma install_keys:
  assumes "keys_inv s"
  shows "keys_inv (install name t s)"
    and "fst ` set (entries (paths (install name t s)))
           = fst ` set (entries (paths s)) \<union> ({name} - {''__proto__''})"
proof -
  have np: "map_of (entries (paths s)) ''__proto__'' = None"
    using assms by (simp add: keys_inv_def map_of_eq_None_iff)
  show "keys_inv (install name t s)"
    using assms np
    by (auto simp: keys_inv_def install_def updateStack_def paths_put_def obj_put_keys
        obj_put_distinct)
  show "fst ` set (entries (paths (install name t s)))
           = fst ` set (entries (paths s)) \<union> ({name} - {''__proto__''})"
    using np by (auto simp: install_def updateStack_def paths_put_def obj_put_keys)
qed

lemma install_all_append: "install_all (rs @ rs') s = install_all rs' (install_all rs s)"
  by (simp add: install_all_def)

lemma install_all_Cons: "install_all (r # rs) s = install_all rs (install (fst r) (snd r) s)"
  by (simp add: install_all_def)

lemma install_all_Nil: "install_all [] s = s"
  by (simp add: install_all_def)

lemma add_path_registrations:
  "add T H kvs prefix s
     = (fst (add_registrations T H kvs prefix),
        install_all (snd (add_registrations T H kvs prefix)) s)"
  "path T H name d s
     = (fst (path_registrations T H name d),
        install_all (snd (path_registrations T H name d)) s)"
proof (induction T H kvs prefix s and T H name d s rule: add_path.induct)
  case (1 T H prefix s)
  show ?case by (simp add: install_all_Nil)
next
  case (2 T H key v rest prefix s)
  obtain e rs where p: "path_registrations T H (prefix @ key) v = (e, rs)"
    by (cases "path_registrations T H (prefix @ key) v")
  obtain e' rs' where a: "add_registrations T H rest prefix = (e', rs')"
    by (cases "add_registrations T H rest prefix")
  have ph: "path T H (prefix @ key) v s = (e, install_all rs s)"
    using "2.IH"(1) p by simp
  show ?case
  proof (cases e)
    case None
    have "add T H rest prefix (install_all rs s) = (e', install_all rs' (install_all rs s))"
      using "2.IH"(2) ph None a by fastforce
    then show ?thesis using ph None p a by (simp add: install_all_append)
  next
    case (Some x)
    then show ?thesis using ph p by simp
  qed
next
  case (7 T H name kvs s)
  show ?case
  proof (cases "decl_truthy (decl_type (DObject kvs))")
    case True
    then show ?thesis
      by (simp add: install_all_Nil install_all_Cons split: sum.splits)
  next
    case False
    show ?thesis
    proof (cases "kvs = []")
      case True
      then show ?thesis using False by (simp add: install_all_Nil install_all_Cons)
    next
      case ne: False
      obtain e rs where a: "add_registrations T H kvs (name @ ''.'') = (e, rs)"
        by (cases "add_registrations T H kvs (name @ ''.'')")
      show ?thesis
        using "7.IH" [OF False ne] False ne a by (simp add: install_all_Cons)
    qed
  qed
qed (simp_all add: install_all_Nil install_all_Cons split: sum.splits list.splits)

lemma run_calls_registrations:
  "run_calls T H cs s = install_all (registrations T H cs) s"
proof (induction cs arbitrary: s)
  case Nil
  show ?case by (simp add: registrations_def install_all_Nil)
next
  case (Cons c cs)
  have "run_call T H c s = install_all (call_registrations T H c) s"
    by (cases c) (simp_all add: add_path_registrations)
  then show ?case
    using Cons [of "run_call T H c s"] by (simp add: registrations_def install_all_append)
qed

lemma install_all_stacks:
  "getter (stacks (install_all rs s)) = getter (stacks s) @ rs
   \<and> setter (stacks (install_all rs s)) = setter (stacks s) @ rs
   \<and> import_stack (stacks (install_all rs s)) = import_stack (stacks s) @ rs
   \<and> export_stack (stacks (install_all rs s)) = export_stack (stacks s) @ rs"
  by (induction rs arbitrary: s) (simp_all add: install_all_Nil install_all_Cons install_stacks)

lemma install_all_keys:
  "keys_inv s \<Longrightarrow>
   keys_inv (install_all rs s)
   \<and> fst ` set (entries (paths (install_all rs s)))
       = fst ` set (entries (paths s)) \<union> (fst ` set rs - {''__proto__''})"
proof (induction rs arbitrary: s)
  case Nil
  then show ?case by (simp add: install_all_Nil)
next
  case (Cons r rs)
  have k: "keys_inv (install (fst r) (snd r) s)"
    by (rule install_keys(1) [OF Cons.prems])
  have e: "fst ` set (entries (paths (install (fst r) (snd r) s)))
           = fst ` set (entries (paths s)) \<union> ({fst r} - {''__proto__''})"
    by (rule install_keys(2) [OF Cons.prems])
  show ?case using Cons.IH [OF k] e by (auto simp: install_all_Cons)
qed

lemma new_Schema_keys_inv: "keys_inv new_Schema"
  by (simp add: keys_inv_def new_Schema_def)

lemma card_names:
  fixes names :: "string list"
  shows "card (set names - {p}) \<le> length names"
    and "(card (set names - {p}) = length names) = (distinct names \<and> p \<notin> set names)"
proof -
  have a: "card (set names - {p}) \<le> card (set names)"
    by (rule card_mono) auto
  have b: "card (set names) \<le> length names" by (rule card_length)
  show "card (set names - {p}) \<le> length names" using a b by simp
  have c: "(card (set names) = length names) = distinct names"
    using card_distinct [of names] distinct_card [of names] by auto
  have d: "(card (set names - {p}) = card (set names)) = (p \<notin> set names)"
  proof (cases "p \<in> set names")
    case True
    then have "card (set names - {p}) < card (set names)"
      by (intro card_Diff1_less) simp_all
    then show ?thesis using True by simp
  next
    case False
    then show ?thesis by simp
  qed
  show "(card (set names - {p}) = length names) = (distinct names \<and> p \<notin> set names)"
    using a b c d by auto
qed

text \<open>
  C3, as amended. After any sequence of registration calls on a new schema, whether or not
  a call threw, each of the four stacks holds exactly the registrations made, one closure
  per registration, in order, so the four have the same length. The keys of \<open>paths\<close> are
  the different names registered other than \<open>__proto__\<close> (registering that name replaces
  the prototype of \<open>paths\<close> and adds no key): their number is at most the length of a
  stack, and equals it exactly when no name was registered twice and none is
  \<open>__proto__\<close>. A call of \<open>path\<close> with an instance registers that name and instance; an
  \<open>add\<close> of two instances registers both under the prefix, in order.
\<close>

theorem stacks_hold_registrations:
  "getter (stacks (run_calls T H cs new_Schema)) = registrations T H cs
   \<and> setter (stacks (run_calls T H cs new_Schema)) = registrations T H cs
   \<and> import_stack (stacks (run_calls T H cs new_Schema)) = registrations T H cs
   \<and> export_stack (stacks (run_calls T H cs new_Schema)) = registrations T H cs
   \<and> distinct (map fst (entries (paths (run_calls T H cs new_Schema))))
   \<and> set (map fst (entries (paths (run_calls T H cs new_Schema))))
       = set (map fst (registrations T H cs)) - {''__proto__''}
   \<and> length (entries (paths (run_calls T H cs new_Schema)))
       = card (set (map fst (registrations T H cs)) - {''__proto__''})
   \<and> length (entries (paths (run_calls T H cs new_Schema)))
       \<le> length (getter (stacks (run_calls T H cs new_Schema)))
   \<and> (length (entries (paths (run_calls T H cs new_Schema)))
        = length (getter (stacks (run_calls T H cs new_Schema))))
       = (distinct (map fst (registrations T H cs))
          \<and> ''__proto__'' \<notin> set (map fst (registrations T H cs)))
   \<and> registrations T H [CallPath name (DInstance t)] = [(name, t)]
   \<and> registrations T H [CallAdd [(name, DInstance t), (name', DInstance t')] prefix]
       = [(prefix @ name, t), (prefix @ name', t')]"
proof -
  define s where "s = run_calls T H cs new_Schema"
  define rs where "rs = registrations T H cs"
  have s: "s = install_all rs new_Schema"
    unfolding s_def rs_def by (rule run_calls_registrations)
  have st: "getter (stacks s) = rs" "setter (stacks s) = rs"
    "import_stack (stacks s) = rs" "export_stack (stacks s) = rs"
    using install_all_stacks [of rs new_Schema] by (simp_all add: s new_Schema_def)
  have k: "keys_inv s"
    and e: "fst ` set (entries (paths s)) = fst ` set rs - {''__proto__''}"
    using install_all_keys [OF new_Schema_keys_inv, of rs] by (simp_all add: s new_Schema_def)
  have d: "distinct (map fst (entries (paths s)))" using k by (simp add: keys_inv_def)
  have l: "length (entries (paths s)) = card (set (map fst rs) - {''__proto__''})"
    using distinct_card [OF d] e by simp
  have le: "length (entries (paths s)) \<le> length (getter (stacks s))"
    using l card_names(1) [of "map fst rs" "''__proto__''"] st by simp
  have iff: "(length (entries (paths s)) = length (getter (stacks s)))
       = (distinct (map fst rs) \<and> ''__proto__'' \<notin> set (map fst rs))"
    using l card_names(2) [of "map fst rs" "''__proto__''"] st by simp
  have r1: "registrations T H [CallPath name (DInstance t)] = [(name, t)]"
    by (simp add: registrations_def)
  have r2: "registrations T H [CallAdd [(name, DInstance t), (name', DInstance t')] prefix]
       = [(prefix @ name, t), (prefix @ name', t')]"
    by (simp add: registrations_def)
  show ?thesis
    using st d e l le iff r1 r2 unfolding s_def [symmetric] rs_def [symmetric] by simp
qed

text \<open>
  C3 as stated fails when a path is registered again: \<open>add({a: String})\<close> followed by
  \<open>add({a: Number})\<close> leaves one key in \<open>paths\<close> and two closures in each stack. It fails
  for the name \<open>__proto__\<close> too: \<open>path('__proto__', String)\<close> leaves no key and one closure
  in each stack.
\<close>

theorem redefined_path_counterexample:
  "length (entries (paths (run_calls (plain_types plain_js) plain_js
       [CallAdd [(''a'', DFunction (Ctor ''String''))] [],
        CallAdd [(''a'', DFunction (Ctor ''Number''))] []] new_Schema))) = 1
   \<and> length (getter (stacks (run_calls (plain_types plain_js) plain_js
       [CallAdd [(''a'', DFunction (Ctor ''String''))] [],
        CallAdd [(''a'', DFunction (Ctor ''Number''))] []] new_Schema))) = 2
   \<and> length (entries (paths (run_calls (plain_types plain_js) plain_js
       [CallPath ''__proto__'' (DFunction (Ctor ''String''))] new_Schema))) = 0
   \<and> length (getter (stacks (run_calls (plain_types plain_js) plain_js
       [CallPath ''__proto__'' (DFunction (Ctor ''String''))] new_Schema))) = 1"
  by (simp add: plain_types_def new_Schema_def install_def updateStack_def builtinTypes_def
      paths_put_def)

subsection \<open>Validation\<close>

lemma run_stack_append:
  "run_stack f (xs @ ys) data =
     (case run_stack f xs data of Inl e \<Rightarrow> Inl e | Inr d \<Rightarrow> run_stack f ys d)"
  by (induction xs arbitrary: data) (auto split: sum.splits)

text \<open>
  C7. \<open>validate\<close> of a base schema type raises a ValidationError, whose message names the
  field, exactly when the type is required and the value is null or undefined, and
  returns the value unchanged otherwise. When the closures of the setter stack before
  some closure run without an exception and the validation in that closure raises,
  the exception is the outcome of \<open>_applySetters\<close>.
\<close>

theorem validate_required_error_propagates:
  "st_validate (new_SchemaType H nm (Some opts)) v data =
     (if opt_required opts \<and> (v = Null \<or> v = Undefined)
      then Inl (ValidationError (''`'' @ st_name (new_SchemaType H nm (Some opts)) @ ''` is required!''))
      else Inr v)
   \<and> (setter (stacks s) = pre @ c # post
        \<longrightarrow> run_stack setter_fn pre doc = Inr d
        \<longrightarrow> st_validate (snd c) (getProp d (fst c)) d = Inl e
        \<longrightarrow> applySetters s doc = Inl e)"
  by (auto simp: new_SchemaType_def validate_def nullish_def Let_def applySetters_def
      run_stack_append setter_fn_def)

lemma setter_person_schema:
  "setter (stacks person_schema) =
     [(''age'', new_Number plain_js ''age'' no_options),
      (''name'', new_SchemaType plain_js (Some ''name'')
         (Some \<lparr>opt_required = True, opt_default = DVal Undefined, opt_ref = None\<rparr>))]"
  by (simp add: person_schema_def plain_types_def new_Schema_def install_def updateStack_def
      builtinTypes_def decl_options_def no_options_def)

text \<open>C7 at the schema \<open>{age: Number, name: {type: String, required: true}}\<close> and the
  document \<open>{age: 30}\<close>.\<close>

theorem validate_required_error_propagates_witness:
  "setter (stacks person_schema) =
      [(''age'', new_Number plain_js ''age'' no_options)]
      @ (''name'', new_SchemaType plain_js (Some ''name'')
           (Some \<lparr>opt_required = True, opt_default = DVal Undefined, opt_ref = None\<rparr>)) # []
   \<and> run_stack setter_fn [(''age'', new_Number plain_js ''age'' no_options)]
        (Obj [(''age'', Num 30)]) = Inr (Obj [(''age'', Num 30)])
   \<and> applySetters person_schema (Obj [(''age'', Num 30)])
        = Inl (ValidationError ''`name` is required!'')"
proof -
  have a: "setter (stacks person_schema) =
      [(''age'', new_Number plain_js ''age'' no_options)]
      @ (''name'', new_SchemaType plain_js (Some ''name'')
           (Some \<lparr>opt_required = True, opt_default = DVal Undefined, opt_ref = None\<rparr>)) # []"
    by (simp add: setter_person_schema)
  have b: "run_stack setter_fn [(''age'', new_Number plain_js ''age'' no_options)]
        (Obj [(''age'', Num 30)]) = Inr (Obj [(''age'', Num 30)])"
    by (simp add: setter_fn_def new_Number_def validate_def no_options_def nullish_def
        getProp_def setProp_def obj_get_def)
  have c: "st_validate (snd (''name'', new_SchemaType plain_js (Some ''name'')
           (Some \<lparr>opt_required = True, opt_default = DVal Undefined, opt_ref = None\<rparr>)))
        (getProp (Obj [(''age'', Num 30)]) (fst (''name'', new_SchemaType plain_js (Some ''name'')
           (Some \<lparr>opt_required = True, opt_default = DVal Undefined, opt_ref = None\<rparr>))))
        (Obj [(''age'', Num 30)]) = Inl (ValidationError ''`name` is required!'')"
    by (simp add: new_SchemaType_def Let_def validate_def nullish_def getProp_def obj_get_def)
  from validate_required_error_propagates
    [of plain_js None no_options Null Null person_schema
        "[(''age'', new_Number plain_js ''age'' no_options)]" _ "[]"
        "Obj [(''age'', Num 30)]" "Obj [(''age'', Num 30)]"
        "ValidationError ''`name` is required!''"] a b c
  show ?thesis by blast
qed

subsection \<open>Updates\<close>

lemma paths_visit_schema:
  "paths visit_schema =
     \<lparr>entries = [(''age'', new_Number plain_js ''age'' no_options),
                 (''visits'', new_Number plain_js ''visits'' no_options)],
      proto = None\<rparr>"
  by (simp add: visit_schema_def plain_types_def new_Schema_def install_def updateStack_def
      builtinTypes_def decl_options_def no_options_def paths_put_def)

lemma paths_get_visit:
  "paths_get (paths visit_schema) ''age'' = Some (PathType (new_Number plain_js ''age'' no_options))"
  "paths_get (paths visit_schema) ''visits'' = Some (PathType (new_Number plain_js ''visits'' no_options))"
  "paths_get (paths visit_schema) ''undefined'' = None"
  by (simp_all add: paths_visit_schema paths_get_def object_prototype_names_def)

lemma parse_set_inc:
  "schema_parseUpdate plain_js visit_schema
     [(''$set'', Obj [(''age'', Num 31)]), (''$inc'', Obj [(''visits'', Num 1)])]
   = Inr [UpdateOperatorFn (PathType (new_Number plain_js ''age'' no_options)) ''u$set'' (Some ''age'') (Num 31),
          UpdateOperatorFn (PathType (new_SchemaType plain_js None None)) ''u$inc'' None Undefined]"
  by (simp add: schema_parseUpdate_def parseUpdate_def paths_get_visit is_operator_def
      inline_operators_def object_keys_def nullish_def nth_opt_def prop_key_def
      updateStackOperator_def obj_get_def or_new_def)

text \<open>
  C1. The claim: the inline form yields one action per entry of the operand, and the
  update \<open>{$set: {age: 31}, $inc: {visits: 1}}\<close> applied to \<open>{age: 30, visits: 5}\<close> yields
  \<open>{age: 31, visits: 6}\<close>. The code reads \<open>fields[i]\<close> with the index of the outer loop:
  for \<open>$inc\<close>, at index 1, the field is undefined, the closure gets a base type and no
  field, and applying the update raises a TypeError after \<open>age\<close> was set. With two fields
  under one operator, the first field is written twice and the second never.
\<close>

theorem inline_update_reads_outer_index:
  "schema_parseUpdate plain_js visit_schema
     [(''$set'', Obj [(''age'', Num 31)]), (''$inc'', Obj [(''visits'', Num 1)])]
   = Inr [UpdateOperatorFn (PathType (new_Number plain_js ''age'' no_options)) ''u$set'' (Some ''age'') (Num 31),
          UpdateOperatorFn (PathType (new_SchemaType plain_js None None)) ''u$inc'' None Undefined]
   \<and> apply_update
        [UpdateOperatorFn (PathType (new_Number plain_js ''age'' no_options)) ''u$set'' (Some ''age'') (Num 31),
         UpdateOperatorFn (PathType (new_SchemaType plain_js None None)) ''u$inc'' None Undefined]
        (Obj [(''age'', Num 30), (''visits'', Num 5)])
      = Inl (TypeError ''key is required!'')
   \<and> schema_parseUpdate plain_js visit_schema
        [(''$set'', Obj [(''age'', Num 31), (''visits'', Num 6)])]
      = Inr [UpdateOperatorFn (PathType (new_Number plain_js ''age'' no_options)) ''u$set'' (Some ''age'') (Num 31),
             UpdateOperatorFn (PathType (new_Number plain_js ''age'' no_options)) ''u$set'' (Some ''age'') (Num 31)]
   \<and> apply_update
        [UpdateOperatorFn (PathType (new_Number plain_js ''age'' no_options)) ''u$set'' (Some ''age'') (Num 31),
         UpdateOperatorFn (PathType (new_Number plain_js ''age'' no_options)) ''u$set'' (Some ''age'') (Num 31)]
        (Obj [(''age'', Num 30), (''visits'', Num 5)])
      = Inr (Obj [(''age'', Num 31), (''visits'', Num 5)])"
proof -
  have p2: "schema_parseUpdate plain_js visit_schema
        [(''$set'', Obj [(''age'', Num 31), (''visits'', Num 6)])]
      = Inr [UpdateOperatorFn (PathType (new_Number plain_js ''age'' no_options)) ''u$set'' (Some ''age'') (Num 31),
             UpdateOperatorFn (PathType (new_Number plain_js ''age'' no_options)) ''u$set'' (Some ''age'') (Num 31)]"
    by (simp add: schema_parseUpdate_def parseUpdate_def paths_get_visit is_operator_def
      inline_operators_def object_keys_def nullish_def nth_opt_def prop_key_def
      updateStackOperator_def obj_get_def upt_rec or_new_def)
  have a1: "apply_update
        [UpdateOperatorFn (PathType (new_Number plain_js ''age'' no_options)) ''u$set'' (Some ''age'') (Num 31),
         UpdateOperatorFn (PathType (new_SchemaType plain_js None None)) ''u$inc'' None Undefined]
        (Obj [(''age'', Num 30), (''visits'', Num 5)])
      = Inl (TypeError ''key is required!'')"
    by (simp add: apply_update_def getProp_key_def setProp_key_def getProp_def setProp_def
        new_Number_def base_u_def u_set_def obj_get_def)
  have a2: "apply_update
        [UpdateOperatorFn (PathType (new_Number plain_js ''age'' no_options)) ''u$set'' (Some ''age'') (Num 31),
         UpdateOperatorFn (PathType (new_Number plain_js ''age'' no_options)) ''u$set'' (Some ''age'') (Num 31)]
        (Obj [(''age'', Num 30), (''visits'', Num 5)])
      = Inr (Obj [(''age'', Num 31), (''visits'', Num 5)])"
    by (simp add: apply_update_def getProp_key_def setProp_key_def getProp_def setProp_def
        new_Number_def base_u_def u_set_def obj_get_def)
  show ?thesis using parse_set_inc p2 a1 a2 by simp
qed

subsection \<open>Operators without a method\<close>

text \<open>
  C2 as stated fails: for the operator \<open>$foo\<close>, which the Number type does not define,
  both compilations return closures; the TypeError is raised when they are called on a
  document.
\<close>

theorem unknown_operator_compiles_counterexample:
  "schema_execQuery plain_js visit_schema [QField ''age'' (Obj [(''$foo'', Num 1)])]
     = ExecFn [OperatorFn (PathType (new_Number plain_js ''age'' no_options)) ''q$foo'' ''age'' (Num 1)]
   \<and> run_filter plain_js
        (ExecFn [OperatorFn (PathType (new_Number plain_js ''age'' no_options)) ''q$foo'' ''age'' (Num 1)])
        (Obj [(''age'', Num 30)])
      = Inl (TypeError ''path[q$foo] is not a function'')
   \<and> schema_parseUpdate plain_js visit_schema [(''age'', Obj [(''$foo'', Num 1)])]
      = Inr [UpdateOperatorFn (PathType (new_Number plain_js ''age'' no_options)) ''u$foo'' (Some ''age'') (Num 1)]
   \<and> apply_update
        [UpdateOperatorFn (PathType (new_Number plain_js ''age'' no_options)) ''u$foo'' (Some ''age'') (Num 1)]
        (Obj [(''age'', Num 30)])
      = Inl (TypeError ''path[u$foo] is not a function'')"
  by (simp add: schema_execQuery_def schema_parseUpdate_def parseUpdate_def paths_get_visit
      is_operator_def queryStackOperator_def updateStackOperator_def apply_update_def
      new_Number_def base_q_def base_u_def getProp_key_def or_new_def)

text \<open>
  C2, as amended. Compiling an operator \<open>$op\<close> does not look the method up: the query
  parser pushes the closure of \<open>queryStackOperator\<close> for \<open>q$op\<close>, and the update parser
  pushes closures of \<open>updateStackOperator\<close> for \<open>u$op\<close>, in the first-class form and in the
  inline form, whatever methods the type has. A closure whose type has no such method
  raises a TypeError when it is called on a document; for a schema type, the method is
  the one its table gives.
\<close>

theorem unknown_operator_raises_when_applied:
  "execQuery H P [QField name (Obj ((CHR ''$'' # op, query) # rest))]
     = ExecFn (queryStackOperator H P (''q$'' @ op) name query # parseNormalQuery H P rest name)
   \<and> (path_q ty qkey = None
        \<longrightarrow> run_filter H (OperatorFn ty qkey name query) data
              = Inl (TypeError (''path['' @ qkey @ ''] is not a function'')))
   \<and> (prefix \<noteq> []
        \<longrightarrow> parseUpdate_loop H P prefix i [(CHR ''$'' # op, update)]
              = Inr [updateStackOperator H (paths_get P (butlast prefix)) (''u$'' @ op)
                       (Some (butlast prefix)) update])
   \<and> (object_keys operand = Inr fieldKeys
        \<longrightarrow> parseUpdate_loop H P [] i [(CHR ''$'' # op, operand)]
              = Inr (map (\<lambda>j. updateStackOperator H (paths_get P (prop_key (nth_opt fieldKeys i)))
                                 (''u$'' @ op) (nth_opt fieldKeys i)
                                 (obj_get (own_entries operand) (prop_key (nth_opt fieldKeys i))))
                       [0..<length fieldKeys]))
   \<and> (path_u ty ukey = None
        \<longrightarrow> run_update (UpdateOperatorFn ty ukey (Some key) update) data
              = Inl (TypeError (''path['' @ ukey @ ''] is not a function'')))
   \<and> path_q (PathType t) qkey = st_q t qkey
   \<and> path_u (PathType t) ukey = st_u t ukey"
  by (simp add: is_operator_def getProp_key_def inline_operators_def Let_def)

text \<open>The amended C2 at the operator \<open>$foo\<close> on the path \<open>age\<close>.\<close>

theorem unknown_operator_raises_when_applied_witness:
  "path_q (PathType (new_Number plain_js ''age'' no_options)) ''q$foo'' = None
   \<and> run_filter plain_js
        (OperatorFn (PathType (new_Number plain_js ''age'' no_options)) ''q$foo'' ''age'' (Num 1))
        (Obj [(''age'', Num 30)])
      = Inl (TypeError ''path[q$foo] is not a function'')
   \<and> ''age.'' \<noteq> []
   \<and> parseUpdate_loop plain_js (paths visit_schema) ''age.'' 0 [(''$foo'', Num 1)]
      = Inr [updateStackOperator plain_js (paths_get (paths visit_schema) ''age'') ''u$foo''
               (Some ''age'') (Num 1)]
   \<and> object_keys (Obj [(''age'', Num 1)]) = Inr [''age'']
   \<and> parseUpdate_loop plain_js (paths visit_schema) [] 0 [(''$foo'', Obj [(''age'', Num 1)])]
      = Inr [updateStackOperator plain_js (paths_get (paths visit_schema) ''age'') ''u$foo''
               (Some ''age'') (Num 1)]
   \<and> path_u (PathType (new_Number plain_js ''age'' no_options)) ''u$foo'' = None
   \<and> run_update
        (UpdateOperatorFn (PathType (new_Number plain_js ''age'' no_options)) ''u$foo'' (Some ''age'') (Num 1))
        (Obj [(''age'', Num 30)])
      = Inl (TypeError ''path[u$foo] is not a function'')"
proof -
  have q: "path_q (PathType (new_Number plain_js ''age'' no_options)) ''q$foo'' = None"
    by (simp add: new_Number_def base_q_def)
  have u: "path_u (PathType (new_Number plain_js ''age'' no_options)) ''u$foo'' = None"
    by (simp add: new_Number_def base_u_def)
  have p: "''age.'' \<noteq> []" by simp
  have k: "object_keys (Obj [(''age'', Num 1)]) = Inr [''age'']"
    by (simp add: object_keys_def nullish_def)
  from unknown_operator_raises_when_applied
    [where H = plain_js and P = "paths visit_schema" and op = "''foo''" and query = "Num 1"
       and rest = "[]" and name = "''age''"
       and ty = "PathType (new_Number plain_js ''age'' no_options)"
       and qkey = "''q$foo''" and data = "Obj [(''age'', Num 30)]" and prefix = "''age.''"
       and i = 0 and update = "Num 1" and operand = "Obj [(''age'', Num 1)]"
       and fieldKeys = "[''age'']" and ukey = "''u$foo''" and key = "''age''"] q u p k
  show ?thesis by (simp add: nth_opt_def prop_key_def obj_get_def)
qed

subsection \<open>Nested queries\<close>

text \<open>
  C4 as stated fails for the case its source names, a plain top-level key:
  \<open>{name: {first: 'Jane'}}\<close> compiles the inner key to the path \<open>name.first\<close>, which has
  no leading dot.
\<close>

theorem plain_key_no_leading_dot_counterexample:
  "parseQuery plain_js (paths new_Schema) [QField ''name'' (Obj [(''first'', Str ''Jane'')])]
     = [MatchFn (PathType (new_SchemaType plain_js (Some ''name.first'') None)) ''name.first''
          (Str ''Jane'')]
   \<and> \<not> leading_dot ''name.first''"
  by (simp add: is_operator_def queryStackNormal_def or_new_def paths_get_def new_Schema_def
      object_prototype_names_def leading_dot_def)

lemma begins_with_shorter: "begins_with (p @ q) f \<Longrightarrow> begins_with p f"
proof -
  assume a: "begins_with (p @ q) f"
  then obtain name where n: "filter_name f = Some name" and t: "take (length (p @ q)) name = p @ q"
    by (auto simp: begins_with_def split: option.splits)
  have "take (length p) (take (length (p @ q)) name) = take (length p) (p @ q)"
    using t by simp
  then have "take (length p) name = p" by (simp add: min_def)
  then show ?thesis using n by (simp add: begins_with_def)
qed

lemma parseNormalQuery_begins:
  "list_all (begins_with prefix) (parseNormalQuery H P kvs prefix)"
proof (induction H P kvs prefix rule: parseNormalQuery.induct)
  case (1 H P prefix)
  show ?case by simp
next
  case (2 H P key query rest prefix)
  have nested: "list_all (begins_with prefix) (parseNormalQuery H P x (prefix @ ''.'' @ key))"
    if "\<not> is_operator key" "query = Obj x" for x
    using "2.IH"(1) [OF that] begins_with_shorter [of prefix "''.'' @ key"]
    by (simp add: list_all_iff)
  have op: "begins_with prefix (queryStackOperator H P (CHR ''q'' # key) prefix query)"
    by (simp add: begins_with_def queryStackOperator_def)
  have nm: "begins_with prefix (queryStackNormal H P (prefix @ ''.'' @ key) query)"
    by (simp add: begins_with_def queryStackNormal_def)
  show ?case
  proof (cases "is_operator key")
    case True
    then show ?thesis using "2.IH"(2) op by simp
  next
    case False
    show ?thesis
    proof (cases query)
      case (Obj x)
      then show ?thesis using False "2.IH"(2) nested [OF False Obj] by simp
    qed (use False "2.IH"(2) nm in simp_all)
  qed
qed

text \<open>
  C4, as amended. Every path name compiled under a top-level key \<open>K\<close> begins with \<open>K\<close>:
  \<open>parseQuery\<close> passes \<open>K\<close> itself as the prefix, and an inner key that is no operator
  compiles to \<open>K.key\<close>. That name has a leading dot exactly when \<open>K\<close> is empty or itself
  begins with a dot; \<open>{'': {first: 'Jane'}}\<close> compiles to \<open>.first\<close>.
\<close>

theorem nested_query_names_begin_with_key:
  "list_all (begins_with K) (parseQuery H P [QField K v])
   \<and> parseQuery H P [QField K (Obj [(key, Str w)])]
      = (if is_operator key then [queryStackOperator H P (CHR ''q'' # key) K (Str w)]
         else [queryStackNormal H P (K @ ''.'' @ key) (Str w)])
   \<and> leading_dot (K @ ''.'' @ key) = (K = [] \<or> leading_dot K)
   \<and> parseQuery H P [QField [] (Obj [(''first'', Str ''Jane'')])]
      = [queryStackNormal H P ''.first'' (Str ''Jane'')]"
proof -
  have a: "list_all (begins_with K) (parseQuery H P [QField K v])"
    using parseNormalQuery_begins [where prefix = K and H = H and P = P]
    by (cases v) (simp_all add: begins_with_def queryStackNormal_def)
  have b: "leading_dot (K @ ''.'' @ key) = (K = [] \<or> leading_dot K)"
    by (cases K) (simp_all add: leading_dot_def)
  show ?thesis using a b by (simp add: is_operator_def)
qed

subsection \<open>\<open>$or\<close>, \<open>$nor\<close> and \<open>$not\<close>\<close>







subsection \<open>Sorting\<close>








subsection \<open>Population\<close>


lemma registered_ref_blog:
  "registered_ref (paths blog_schema) (Some ''author'') = Some ''User''"
  "registered_ref (paths blog_schema) (Some ''comments'') = Some ''Comment''"
  "registered_ref (paths blog_schema) (Some ''tags'') = None"
  "paths_get (paths blog_schema) ''nope'' = None"
  by (simp_all add: registered_ref_def paths_get_def blog_schema_def plain_types_def new_Schema_def
      install_def updateStack_def builtinTypes_def decl_options_def no_options_def type_ref_def
      new_SchemaType_def Let_def paths_put_def object_prototype_names_def)

lemma parsePopulate_loop_prefix:
  "list_all (resolvable P) pre \<Longrightarrow>
   parsePopulate_loop P (pre @ rest)
     = (case parsePopulate_loop P rest of
          Inl e \<Rightarrow> Inl e
        | Inr r \<Rightarrow> Inr (map (resolve P) pre @ r))"
proof (induction pre)
  case Nil
  show ?case by (simp split: sum.splits)
next
  case (Cons item pre)
  then have r: "resolvable P item" and IH: "parsePopulate_loop P (pre @ rest)
     = (case parsePopulate_loop P rest of
          Inl e \<Rightarrow> Inl e
        | Inr r \<Rightarrow> Inr (map (resolve P) pre @ r))" by simp_all
  show ?case
    using r
    by (auto simp: IH resolvable_def resolve_def registered_ref_def falsy_def Let_def
        split: option.splits sum.splits if_splits pathval.splits)
qed

lemma parsePopulate_loop_resolvable:
  "list_all (resolvable P) items \<Longrightarrow> parsePopulate_loop P items = Inr (map (resolve P) items)"
  using parsePopulate_loop_prefix [of P items "[]"] by simp

text \<open>
  C9 as stated fails. An item without a path does not make \<open>_parsePopulate\<close> raise "path
  is required" when an earlier item raises first: \<open>[tags, {model: 'Tag'}]\<close>, where \<open>tags\<close>
  has no \<open>ref\<close>, raises "model is required". And a descriptor does not take its model from
  the type's \<open>ref\<close> when the item has a model: \<open>{path: 'author', model: 'Custom'}\<close> keeps
  \<open>Custom\<close> although \<open>author\<close> refers to \<open>User\<close>.
\<close>

theorem populate_order_and_own_model_counterexample:
  "parsePopulate blog_schema
     (ExprArr [ElemStr ''tags'',
               ElemItem \<lparr>item_path = None, item_model = Some ''Tag'', item_rest = []\<rparr>])
     = Inl (PopulationError ''model is required'')
   \<and> parsePopulate blog_schema
       (ExprArr [ElemItem \<lparr>item_path = Some ''author'', item_model = Some ''Custom'', item_rest = []\<rparr>])
     = Inr [\<lparr>item_path = Some ''author'', item_model = Some ''Custom'', item_rest = []\<rparr>]"
  by (simp add: parsePopulate_def blog_schema_def plain_types_def new_Schema_def install_def
      updateStack_def builtinTypes_def decl_options_def no_options_def type_ref_def
      new_SchemaType_def Let_def falsy_def path_only_def paths_put_def paths_get_def)

text \<open>
  C9, as amended. \<open>_parsePopulate\<close> goes through the normalized items in input order.
  When the items before some item each have a path and a model of their own or a
  registered path with a \<open>ref\<close>: if that item has no path, "path is required" is raised;
  if it has a path that is registered, no model, and the type (for an array type, its
  child) has no \<open>ref\<close>, "model is required" is raised. When every item has a path and a
  model of its own or a registered path with a \<open>ref\<close>, one descriptor per item is returned
  in input order, with the paths of the items; a descriptor keeps the model of its item
  and takes the \<open>ref\<close> when the item has none. A registered path is one that \<open>paths\<close> has
  a schema type for, as it has for each of its own keys.
\<close>

theorem populate_first_offender:
  "(normalize_expr expr = pre @ item # post \<and> list_all (resolvable (paths s)) pre
      \<and> falsy (item_path item)
      \<longrightarrow> parsePopulate s expr = Inl (PopulationError ''path is required''))
   \<and> (normalize_expr expr = pre @ item # post \<and> list_all (resolvable (paths s)) pre
      \<and> item_path item = Some key \<and> key \<noteq> [] \<and> falsy (item_model item)
      \<and> paths_get (paths s) key = Some (PathType ty) \<and> falsy (type_ref ty)
      \<longrightarrow> parsePopulate s expr = Inl (PopulationError ''model is required''))
   \<and> (list_all (resolvable (paths s)) (normalize_expr expr)
      \<longrightarrow> parsePopulate s expr = Inr (map (resolve (paths s)) (normalize_expr expr))
          \<and> map item_path (map (resolve (paths s)) (normalize_expr expr))
              = map item_path (normalize_expr expr))
   \<and> (map_of (entries (paths s)) key = Some ty
      \<longrightarrow> paths_get (paths s) key = Some (PathType ty))"
proof -
  have a: "parsePopulate s expr = Inl (PopulationError ''path is required'')"
    if "normalize_expr expr = pre @ item # post" "list_all (resolvable (paths s)) pre"
       "falsy (item_path item)"
    using that
    by (auto simp: parsePopulate_def parsePopulate_loop_prefix falsy_def split: option.splits)
  have b: "parsePopulate s expr = Inl (PopulationError ''model is required'')"
    if "normalize_expr expr = pre @ item # post" "list_all (resolvable (paths s)) pre"
       "item_path item = Some key" "key \<noteq> []" "falsy (item_model item)"
       "paths_get (paths s) key = Some (PathType ty)" "falsy (type_ref ty)"
    using that
    by (simp add: parsePopulate_def parsePopulate_loop_prefix Let_def)
  have c: "parsePopulate s expr = Inr (map (resolve (paths s)) (normalize_expr expr))"
    if "list_all (resolvable (paths s)) (normalize_expr expr)"
    using that by (simp add: parsePopulate_def parsePopulate_loop_resolvable)
  have d: "map item_path (map (resolve (paths s)) (normalize_expr expr))
      = map item_path (normalize_expr expr)"
    by (simp add: resolve_def comp_def)
  have e: "paths_get (paths s) key = Some (PathType ty)"
    if "map_of (entries (paths s)) key = Some ty"
    using that by (simp add: paths_get_def)
  show ?thesis using a b c d e by blast
qed

lemma resolvable_blog:
  "resolvable (paths blog_schema) (path_only ''author'')"
  "resolvable (paths blog_schema) (path_only ''comments'')"
  by (simp_all add: resolvable_def path_only_def falsy_def registered_ref_blog)

lemma tags_type_blog:
  "\<exists>ty. map_of (entries (paths blog_schema)) ''tags'' = Some ty \<and> type_ref ty = None"
  by (simp add: blog_schema_def plain_types_def new_Schema_def install_def
      updateStack_def builtinTypes_def decl_options_def no_options_def type_ref_def
      new_SchemaType_def Let_def paths_put_def)

text \<open>The amended C9 at \<open>'author '\<close>, at \<open>['author', 'tags']\<close> and at the spec's
  \<open>'author comments'\<close>.\<close>

theorem populate_first_offender_witness:
  "normalize_expr (ExprStr ''author '') = [path_only ''author''] @ path_only [] # []
   \<and> parsePopulate blog_schema (ExprStr ''author '') = Inl (PopulationError ''path is required'')
   \<and> normalize_expr (ExprArr [ElemStr ''author'', ElemStr ''tags''])
       = [path_only ''author''] @ path_only ''tags'' # []
   \<and> parsePopulate blog_schema (ExprArr [ElemStr ''author'', ElemStr ''tags''])
       = Inl (PopulationError ''model is required'')
   \<and> parsePopulate blog_schema (ExprStr ''author comments'')
       = Inr [\<lparr>item_path = Some ''author'', item_model = Some ''User'', item_rest = []\<rparr>,
              \<lparr>item_path = Some ''comments'', item_model = Some ''Comment'', item_rest = []\<rparr>]"
proof -
  have n1: "normalize_expr (ExprStr ''author '') = [path_only ''author''] @ path_only [] # []"
    by simp
  have n2: "normalize_expr (ExprArr [ElemStr ''author'', ElemStr ''tags''])
       = [path_only ''author''] @ path_only ''tags'' # []"
    by simp
  have n3: "normalize_expr (ExprStr ''author comments'') = [path_only ''author'', path_only ''comments'']"
    by simp
  have pre: "list_all (resolvable (paths blog_schema)) [path_only ''author'']"
    by (simp add: resolvable_blog)
  have all: "list_all (resolvable (paths blog_schema)) (normalize_expr (ExprStr ''author comments''))"
    unfolding n3 by (simp add: resolvable_blog)
  obtain ty where ty: "map_of (entries (paths blog_schema)) ''tags'' = Some ty" "type_ref ty = None"
    using tags_type_blog by blast
  have tg: "paths_get (paths blog_schema) ''tags'' = Some (PathType ty)"
    using populate_first_offender [where s = blog_schema and key = "''tags''" and ty = ty] ty(1)
    by blast
  have a: "parsePopulate blog_schema (ExprStr ''author '') = Inl (PopulationError ''path is required'')"
    using populate_first_offender
      [where expr = "ExprStr ''author ''" and pre = "[path_only ''author'']"
         and item = "path_only []" and post = "[]" and s = blog_schema] n1 pre
    by (simp add: falsy_def path_only_def)
  have b: "parsePopulate blog_schema (ExprArr [ElemStr ''author'', ElemStr ''tags''])
       = Inl (PopulationError ''model is required'')"
    using populate_first_offender
      [where expr = "ExprArr [ElemStr ''author'', ElemStr ''tags'']"
         and pre = "[path_only ''author'']" and item = "path_only ''tags''" and post = "[]"
         and s = blog_schema and key = "''tags''" and ty = ty] n2 pre ty tg
    by (simp add: falsy_def path_only_def)
  have c: "parsePopulate blog_schema (ExprStr ''author comments'')
       = Inr (map (resolve (paths blog_schema)) (normalize_expr (ExprStr ''author comments'')))"
    using populate_first_offender [where expr = "ExprStr ''author comments''" and s = blog_schema] all
    by blast
  have c': "map (resolve (paths blog_schema)) (normalize_expr (ExprStr ''author comments''))
       = [\<lparr>item_path = Some ''author'', item_model = Some ''User'', item_rest = []\<rparr>,
          \<lparr>item_path = Some ''comments'', item_model = Some ''Comment'', item_rest = []\<rparr>]"
    unfolding n3 by (simp add: resolve_def path_only_def falsy_def registered_ref_blog)
  show ?thesis using n1 n2 a b c c' by simp
qed




end
